theory Spec2Isabelle
  imports Complex_Main "HOL-Library.Numeral_Type" "HOL-Library.Word"
begin

section \<open>Conventions\<close>

text \<open>
  The development covers the constitutive models of \<^verbatim>\<open>solid_functional_material.hpp\<close>
  (LinearIsotropic, NeoHookean, J2), the boundary-condition resolution and the time step
  of \<^verbatim>\<open>NonlinearSolidSolver\<close>, and the Jacobian callback of the dynamic
  \<^verbatim>\<open>ThermalConductionFunctional\<close>.

  A C++ \<^verbatim>\<open>double\<close> is read as a real number; the IEEE values inf and NaN
  and overflow are outside the model. The material models come in two forms. The plain
  one computes exactly. The one whose name ends in \<open>_rounded\<close> applies a rounding
  function after every arithmetic operation; binary64 arithmetic is the instance with
  \<open>round64\<close> and \<open>sqrt64\<close>, exact arithmetic the instance without rounding.
  It is used where the rounding decides a property: the symmetry of the stress, the
  idempotence of the J2 evaluation, the traces of the J2 state.

  A C++ \<^verbatim>\<open>int\<close> is a word of 32 bits. A \<^verbatim>\<open>tensor<double, dim, dim>\<close> is a
  table of reals indexed by a finite type \<open>'d\<close> that plays the role of the template
  parameter \<^verbatim>\<open>dim\<close>; the instances used are the numeral types \<open>2\<close> and
  \<open>3\<close>.
\<close>

section \<open>Tensors\<close>

datatype 'd tensor = Tensor (entry: "'d \<Rightarrow> 'd \<Rightarrow> real")

text \<open>
  The arithmetic operators of the tensor class: componentwise sum, difference and
  negation, and multiplication by a scalar (written \<open>c *\<^sub>R A\<close>).
\<close>

instantiation tensor :: (type) real_vector
begin

definition zero_tensor :: "'a tensor" where
  "zero_tensor = Tensor (\<lambda>i j. 0)"

definition plus_tensor :: "'a tensor \<Rightarrow> 'a tensor \<Rightarrow> 'a tensor" where
  "plus_tensor A B = Tensor (\<lambda>i j. entry A i j + entry B i j)"

definition minus_tensor :: "'a tensor \<Rightarrow> 'a tensor \<Rightarrow> 'a tensor" where
  "minus_tensor A B = Tensor (\<lambda>i j. entry A i j - entry B i j)"

definition uminus_tensor :: "'a tensor \<Rightarrow> 'a tensor" where
  "uminus_tensor A = Tensor (\<lambda>i j. - entry A i j)"

definition scaleR_tensor :: "real \<Rightarrow> 'a tensor \<Rightarrow> 'a tensor" where
  "scaleR_tensor c A = Tensor (\<lambda>i j. c * entry A i j)"

instance
  by standard
    (simp_all add: zero_tensor_def plus_tensor_def minus_tensor_def uminus_tensor_def
      scaleR_tensor_def fun_eq_iff algebra_simps)

end

text \<open>
  Modelled from the spec: the tensor helpers \<^verbatim>\<open>Identity\<close>, \<^verbatim>\<open>transpose\<close>,
  \<^verbatim>\<open>tr\<close>, \<^verbatim>\<open>sym\<close>, \<^verbatim>\<open>dev\<close>, \<^verbatim>\<open>norm\<close>, \<^verbatim>\<open>normalize\<close>,
  \<^verbatim>\<open>det\<close> and the tensor product \<^verbatim>\<open>operator*\<close> (header \<^verbatim>\<open>tensor.hpp\<close>) are
  not among the sources. They are given the meaning the spec's words "deviatoric",
  "volumetric", "norm" and "unit(relative-stress)" have in tensor algebra: the trace,
  the symmetric part \<open>(A + A\<^sup>T) / 2\<close>, the deviator \<open>A - (tr A / dim) I\<close>, the Frobenius
  norm, division of every entry by the norm, the 2-by-2 and 3-by-3 determinants, and
  the matrix product.
\<close>

definition Identity :: "'d tensor" where
  "Identity = Tensor (\<lambda>i j. if i = j then 1 else 0)"

definition transpose_t :: "'d tensor \<Rightarrow> 'd tensor" where
  "transpose_t A = Tensor (\<lambda>i j. entry A j i)"

definition dot :: "'d::finite tensor \<Rightarrow> 'd tensor \<Rightarrow> 'd tensor" where
  "dot A B = Tensor (\<lambda>i j. \<Sum>k\<in>UNIV. entry A i k * entry B k j)"

definition tr :: "'d::finite tensor \<Rightarrow> real" where
  "tr A = (\<Sum>i\<in>UNIV. entry A i i)"

definition sym_t :: "'d tensor \<Rightarrow> 'd tensor" where
  "sym_t A = Tensor (\<lambda>i j. 0.5 * (entry A i j + entry A j i))"

definition dev :: "'d::finite tensor \<Rightarrow> 'd tensor" where
  "dev A = A - (tr A / real CARD('d)) *\<^sub>R Identity"

definition norm_t :: "'d::finite tensor \<Rightarrow> real" where
  "norm_t A = sqrt (\<Sum>i\<in>UNIV. \<Sum>j\<in>UNIV. (entry A i j)\<^sup>2)"

definition normalize_t :: "'d::finite tensor \<Rightarrow> 'd tensor" where
  "normalize_t A = Tensor (\<lambda>i j. entry A i j / norm_t A)"

definition det2 :: "2 tensor \<Rightarrow> real" where
  "det2 A = entry A 0 0 * entry A 1 1 - entry A 0 1 * entry A 1 0"

definition det3 :: "3 tensor \<Rightarrow> real" where
  "det3 A =
     entry A 0 0 * entry A 1 1 * entry A 2 2 + entry A 0 1 * entry A 1 2 * entry A 2 0
     + entry A 0 2 * entry A 1 0 * entry A 2 1 - entry A 0 0 * entry A 1 2 * entry A 2 1
     - entry A 0 1 * entry A 1 0 * entry A 2 2 - entry A 0 2 * entry A 1 1 * entry A 2 0"

section \<open>Binary64 arithmetic\<close>

text \<open>
  Rounding of a real number to the nearest integer, ties to the even one, and rounding to
  the nearest binary64 number with that rule. A binary64 number in the normal range is
  \<open>m * 2\<^sup>e\<close> with an integer \<open>m\<close>, \<open>2\<^sup>5\<^sup>2 \<le> \<bar>m\<bar> < 2\<^sup>5\<^sup>3\<close>; for
  \<open>x \<noteq> 0\<close> the spacing of these numbers around \<open>x\<close> is
  \<open>2\<close> to the power \<open>\<lfloor>log\<^sub>2 \<bar>x\<bar>\<rfloor> - 52\<close>. Subnormal numbers and overflow are not
  represented.
\<close>

definition rne :: "real \<Rightarrow> int" where
  "rne x =
     (let f = \<lfloor>x\<rfloor>; d = x - of_int f
      in if d < 1 / 2 then f else if 1 / 2 < d then f + 1 else if even f then f else f + 1)"

definition round64 :: "real \<Rightarrow> real" where
  "round64 x =
     (if x = 0 then 0
      else (let u = 2 powr (of_int \<lfloor>log 2 \<bar>x\<bar>\<rfloor> - 52) in of_int (rne (x / u)) * u))"

text \<open>
  \<^verbatim>\<open>std::sqrt\<close> on binary64 numbers: the square root, correctly rounded.
\<close>

definition sqrt64 :: "real \<Rightarrow> real" where
  "sqrt64 x = round64 (sqrt x)"

text \<open>
  The roundings and square roots evaluated for the examples are collected under one name.
\<close>

named_theorems round64_values

text \<open>
  Modelled from the spec: the order of the floating-point operations inside the tensor
  helpers of \<^verbatim>\<open>tensor.hpp\<close>, which is not among the sources. The operations are
  those of the section on tensors with every arithmetic operation followed by the
  rounding \<open>rnd\<close>: sums, differences, scalar multiples and quotients are taken entry
  by entry; the trace, a product entry and the squared norm accumulate their terms from
  zero in the order of the loop index (for the trace and the product the values of the
  index are the list \<open>ks\<close>, \<open>[0, 1]\<close> or \<open>[0, 1, 2]\<close>; for the norm the
  entries are taken row by row); the deviator subtracts \<open>(tr A / 3) I\<close>; a
  determinant adds and subtracts its products from left to right; no multiplication is
  fused with an addition. \<open>sq\<close> is the square root of the arithmetic.
\<close>

definition radd :: "(real \<Rightarrow> real) \<Rightarrow> 'd tensor \<Rightarrow> 'd tensor \<Rightarrow> 'd tensor" where
  "radd rnd A B = Tensor (\<lambda>i j. rnd (entry A i j + entry B i j))"

definition rscale :: "(real \<Rightarrow> real) \<Rightarrow> real \<Rightarrow> 'd tensor \<Rightarrow> 'd tensor" where
  "rscale rnd c A = Tensor (\<lambda>i j. rnd (c * entry A i j))"

definition rsub :: "(real \<Rightarrow> real) \<Rightarrow> 'd tensor \<Rightarrow> 'd tensor \<Rightarrow> 'd tensor" where
  "rsub rnd A B = Tensor (\<lambda>i j. rnd (entry A i j - entry B i j))"

definition rdiv :: "(real \<Rightarrow> real) \<Rightarrow> 'd tensor \<Rightarrow> real \<Rightarrow> 'd tensor" where
  "rdiv rnd A c = Tensor (\<lambda>i j. rnd (entry A i j / c))"

definition rsym :: "(real \<Rightarrow> real) \<Rightarrow> 'd tensor \<Rightarrow> 'd tensor" where
  "rsym rnd A = Tensor (\<lambda>i j. rnd (0.5 * rnd (entry A i j + entry A j i)))"

definition rtr :: "(real \<Rightarrow> real) \<Rightarrow> 'd list \<Rightarrow> 'd tensor \<Rightarrow> real" where
  "rtr rnd ks A = foldl (\<lambda>acc k. rnd (acc + entry A k k)) 0 ks"

definition rtr3 :: "(real \<Rightarrow> real) \<Rightarrow> 3 tensor \<Rightarrow> real" where
  "rtr3 rnd A = rtr rnd [0, 1, 2] A"

definition rdev3 :: "(real \<Rightarrow> real) \<Rightarrow> 3 tensor \<Rightarrow> 3 tensor" where
  "rdev3 rnd A = rsub rnd A (rscale rnd (rnd (rtr3 rnd A / 3)) Identity)"

definition rnorm3 :: "(real \<Rightarrow> real) \<Rightarrow> (real \<Rightarrow> real) \<Rightarrow> 3 tensor \<Rightarrow> real" where
  "rnorm3 rnd sq A =
     sq (foldl (\<lambda>acc (i, j). rnd (acc + rnd (entry A i j * entry A i j))) 0
           (List.product [0, 1, 2] [0, 1, 2]))"

definition rdot :: "(real \<Rightarrow> real) \<Rightarrow> 'd list \<Rightarrow> 'd tensor \<Rightarrow> 'd tensor \<Rightarrow> 'd tensor" where
  "rdot rnd ks A B =
     Tensor (\<lambda>i j. foldl (\<lambda>acc k. rnd (acc + rnd (entry A i k * entry B k j))) 0 ks)"

definition rdet2 :: "(real \<Rightarrow> real) \<Rightarrow> 2 tensor \<Rightarrow> real" where
  "rdet2 rnd A = rnd (rnd (entry A 0 0 * entry A 1 1) - rnd (entry A 0 1 * entry A 1 0))"

definition rdet3 :: "(real \<Rightarrow> real) \<Rightarrow> 3 tensor \<Rightarrow> real" where
  "rdet3 rnd A =
     (let t1 = rnd (rnd (entry A 0 0 * entry A 1 1) * entry A 2 2);
          t2 = rnd (rnd (entry A 0 1 * entry A 1 2) * entry A 2 0);
          t3 = rnd (rnd (entry A 0 2 * entry A 1 0) * entry A 2 1);
          t4 = rnd (rnd (entry A 0 0 * entry A 1 2) * entry A 2 1);
          t5 = rnd (rnd (entry A 0 1 * entry A 1 0) * entry A 2 2);
          t6 = rnd (rnd (entry A 0 2 * entry A 1 1) * entry A 2 0)
      in rnd (rnd (rnd (rnd (rnd (t1 + t2) + t3) - t4) - t5) - t6))"

section \<open>Constitutive models\<close>

subsection \<open>Stateless models\<close>

record LinearIsotropic =
  LI_density :: real
  LI_K :: real
  LI_G :: real

text \<open>
  \<^verbatim>\<open>LinearIsotropic::operator()\<close>. The state argument is the empty state and is
  left out.
\<close>

definition LinearIsotropic_call :: "LinearIsotropic \<Rightarrow> 'd::finite tensor \<Rightarrow> 'd tensor" where
  "LinearIsotropic_call m du_dX =
     (let I = Identity;
          lambda = LI_K m - (2 / 3) * LI_G m;
          epsilon = 0.5 *\<^sub>R (transpose_t du_dX + du_dX)
      in (lambda * tr epsilon) *\<^sub>R I + (2 * LI_G m) *\<^sub>R epsilon)"

record NeoHookean =
  NH_density :: real
  NH_K :: real
  NH_G :: real

text \<open>
  \<^verbatim>\<open>NeoHookean::operator()\<close>. The call \<^verbatim>\<open>det(I + du_dX)\<close> is resolved by
  overloading on the dimension; the determinant of the instance is the first argument
  (\<open>det2\<close> or \<open>det3\<close>).
\<close>

definition NeoHookean_call ::
  "('d::finite tensor \<Rightarrow> real) \<Rightarrow> NeoHookean \<Rightarrow> 'd tensor \<Rightarrow> 'd tensor" where
  "NeoHookean_call det m du_dX =
     (let I = Identity;
          lambda = NH_K m - (2 / 3) * NH_G m;
          B_minus_I = dot du_dX (transpose_t du_dX) + transpose_t du_dX + du_dX
      in (lambda * ln (det (I + du_dX))) *\<^sub>R I + NH_G m *\<^sub>R B_minus_I)"

subsection \<open>Stateless models with explicit rounding\<close>

text \<open>
  \<^verbatim>\<open>LinearIsotropic::operator()\<close> with every operation followed by the rounding
  \<open>rnd\<close>, in the order in which the C++ expressions associate:
  \<^verbatim>\<open>lambda * tr(epsilon) * I\<close> and \<^verbatim>\<open>2.0 * G * epsilon\<close> multiply the two
  scalars first. \<open>ks\<close> is the index list of the trace.
\<close>

definition LinearIsotropic_call_rounded ::
  "(real \<Rightarrow> real) \<Rightarrow> 'd list \<Rightarrow> LinearIsotropic \<Rightarrow> 'd tensor \<Rightarrow> 'd tensor" where
  "LinearIsotropic_call_rounded rnd ks m du_dX =
     (let I = Identity;
          lambda = rnd (LI_K m - rnd (rnd (2 / 3) * LI_G m));
          epsilon = rscale rnd 0.5 (radd rnd (transpose_t du_dX) du_dX)
      in radd rnd (rscale rnd (rnd (lambda * rtr rnd ks epsilon)) I)
           (rscale rnd (rnd (2 * LI_G m)) epsilon))"

text \<open>
  \<^verbatim>\<open>NeoHookean::operator()\<close> with every operation followed by \<open>rnd\<close>, in
  the order in which the C++ expressions associate:
  \<^verbatim>\<open>du_dX * transpose(du_dX) + transpose(du_dX) + du_dX\<close> adds the transpose first,
  and \<^verbatim>\<open>lambda * log(det(I + du_dX)) * I\<close> multiplies the two scalars first.
  \<open>lg\<close> is \<^verbatim>\<open>std::log\<close>, meaningful on positive arguments only. As in
  \<open>NeoHookean_call\<close> the determinant of the instance is an argument, and so is the
  index list of the product: \<open>rdet2 rnd\<close> and \<open>[0, 1]\<close> in two dimensions,
  \<open>rdet3 rnd\<close> and \<open>[0, 1, 2]\<close> in three.
\<close>

definition NeoHookean_B_minus_I :: "(real \<Rightarrow> real) \<Rightarrow> 'd list \<Rightarrow> 'd tensor \<Rightarrow> 'd tensor" where
  "NeoHookean_B_minus_I rnd ks du_dX =
     radd rnd (radd rnd (rdot rnd ks du_dX (transpose_t du_dX)) (transpose_t du_dX)) du_dX"

definition NeoHookean_call_rounded ::
  "(real \<Rightarrow> real) \<Rightarrow> (real \<Rightarrow> real) \<Rightarrow> ('d tensor \<Rightarrow> real) \<Rightarrow> 'd list
     \<Rightarrow> NeoHookean \<Rightarrow> 'd tensor \<Rightarrow> 'd tensor" where
  "NeoHookean_call_rounded rnd lg det ks m du_dX =
     (let I = Identity;
          lambda = rnd (NH_K m - rnd (rnd (2 / 3) * NH_G m));
          B_minus_I = NeoHookean_B_minus_I rnd ks du_dX
      in radd rnd (rscale rnd (rnd (lambda * lg (det (radd rnd I du_dX)))) I)
           (rscale rnd (NH_G m) B_minus_I))"

subsection \<open>J2 plasticity\<close>

record J2 =
  E :: real
  nu :: real
  Hi :: real
  Hk :: real
  sigma_y :: real
  density :: real

record State =
  beta :: "3 tensor"
  plastic_strain :: "3 tensor"
  accumulated_plastic_strain :: real

text \<open>
  \<^verbatim>\<open>J2::operator()\<close> at the number type \<^verbatim>\<open>double\<close>, where
  \<^verbatim>\<open>get_value\<close> is the identity. The state is passed in and the updated state
  is returned beside the stress.
\<close>

definition J2_call :: "J2 \<Rightarrow> State \<Rightarrow> 3 tensor \<Rightarrow> 3 tensor \<times> State" where
  "J2_call mat state du_dX =
     (let I = Identity;
          K = E mat / (3 * (1 - 2 * nu mat));
          G = 0.5 * E mat / (1 + nu mat);
          el_strain = sym_t du_dX - plastic_strain state;
          p = K * tr el_strain;
          s = (2 * G) *\<^sub>R dev el_strain;
          eta = s - beta state;
          q = sqrt (3 / 2) * norm_t eta;
          phi = q - (sigma_y mat + Hi mat * accumulated_plastic_strain state)
      in if phi > 0 then
           (let plastic_strain_inc = phi / (3 * G + Hk mat + Hi mat);
                eta = normalize_t eta;
                s = s - (sqrt 6 * G * plastic_strain_inc) *\<^sub>R eta;
                state = state\<lparr>accumulated_plastic_strain :=
                          accumulated_plastic_strain state + plastic_strain_inc\<rparr>;
                state = state\<lparr>plastic_strain :=
                          plastic_strain state + (sqrt (3 / 2) * plastic_strain_inc) *\<^sub>R eta\<rparr>;
                state = state\<lparr>beta :=
                          beta state + (sqrt (2 / 3) * Hk mat * plastic_strain_inc) *\<^sub>R eta\<rparr>
            in (s + p *\<^sub>R I, state))
         else (s + p *\<^sub>R I, state))"

text \<open>The quantities of the elastic predictor, named as in the source.\<close>

definition J2_K :: "J2 \<Rightarrow> real" where
  "J2_K mat = E mat / (3 * (1 - 2 * nu mat))"

definition J2_G :: "J2 \<Rightarrow> real" where
  "J2_G mat = 0.5 * E mat / (1 + nu mat)"

definition J2_el_strain :: "State \<Rightarrow> 3 tensor \<Rightarrow> 3 tensor" where
  "J2_el_strain state du_dX = sym_t du_dX - plastic_strain state"

definition J2_p :: "J2 \<Rightarrow> State \<Rightarrow> 3 tensor \<Rightarrow> real" where
  "J2_p mat state du_dX = J2_K mat * tr (J2_el_strain state du_dX)"

definition J2_s :: "J2 \<Rightarrow> State \<Rightarrow> 3 tensor \<Rightarrow> 3 tensor" where
  "J2_s mat state du_dX = (2 * J2_G mat) *\<^sub>R dev (J2_el_strain state du_dX)"

definition J2_eta :: "J2 \<Rightarrow> State \<Rightarrow> 3 tensor \<Rightarrow> 3 tensor" where
  "J2_eta mat state du_dX = J2_s mat state du_dX - beta state"

definition J2_phi :: "J2 \<Rightarrow> State \<Rightarrow> 3 tensor \<Rightarrow> real" where
  "J2_phi mat state du_dX =
     sqrt (3 / 2) * norm_t (J2_eta mat state du_dX)
       - (sigma_y mat + Hi mat * accumulated_plastic_strain state)"

text \<open>The plastic strain increment of the return mapping.\<close>

definition J2_inc :: "J2 \<Rightarrow> State \<Rightarrow> 3 tensor \<Rightarrow> real" where
  "J2_inc mat state du_dX = J2_phi mat state du_dX / (3 * J2_G mat + Hk mat + Hi mat)"

subsection \<open>J2 plasticity with explicit rounding\<close>

text \<open>
  \<^verbatim>\<open>J2::operator()\<close> with every operation followed by \<open>rnd\<close>, in the order in
  which the C++ expressions associate: \<^verbatim>\<open>2.0 * G * dev(el_strain)\<close> multiplies the
  two scalars first, and so do \<^verbatim>\<open>sqrt(6.0) * G * plastic_strain_inc * eta\<close> and the
  two updates of the state; the constants \<^verbatim>\<open>3.0 / 2.0\<close> and \<^verbatim>\<open>2.0 / 3.0\<close> are
  rounded quotients. \<open>sq\<close> is \<^verbatim>\<open>std::sqrt\<close>. With the identity as rounding
  and the real square root this is \<open>J2_call\<close>.
\<close>

definition J2_call_rounded ::
  "(real \<Rightarrow> real) \<Rightarrow> (real \<Rightarrow> real) \<Rightarrow> J2 \<Rightarrow> State \<Rightarrow> 3 tensor \<Rightarrow> 3 tensor \<times> State" where
  "J2_call_rounded rnd sq mat state du_dX =
     (let I = Identity;
          K = rnd (E mat / rnd (3 * rnd (1 - rnd (2 * nu mat))));
          G = rnd (rnd (0.5 * E mat) / rnd (1 + nu mat));
          el_strain = rsub rnd (rsym rnd du_dX) (plastic_strain state);
          p = rnd (K * rtr3 rnd el_strain);
          s = rscale rnd (rnd (2 * G)) (rdev3 rnd el_strain);
          eta = rsub rnd s (beta state);
          q = rnd (sq (rnd (3 / 2)) * rnorm3 rnd sq eta);
          phi = rnd (q - rnd (sigma_y mat + rnd (Hi mat * accumulated_plastic_strain state)))
      in if phi > 0 then
           (let plastic_strain_inc = rnd (phi / rnd (rnd (rnd (3 * G) + Hk mat) + Hi mat));
                eta = rdiv rnd eta (rnorm3 rnd sq eta);
                s = rsub rnd s (rscale rnd (rnd (rnd (sq 6 * G) * plastic_strain_inc)) eta);
                state = state\<lparr>accumulated_plastic_strain :=
                          rnd (accumulated_plastic_strain state + plastic_strain_inc)\<rparr>;
                state = state\<lparr>plastic_strain :=
                          radd rnd (plastic_strain state)
                            (rscale rnd (rnd (sq (rnd (3 / 2)) * plastic_strain_inc)) eta)\<rparr>;
                state = state\<lparr>beta :=
                          radd rnd (beta state)
                            (rscale rnd (rnd (rnd (sq (rnd (2 / 3)) * Hk mat) * plastic_strain_inc)) eta)\<rparr>
            in (radd rnd s (rscale rnd p I), state))
         else (radd rnd s (rscale rnd p I), state))"

text \<open>The quantities of the rounded evaluation, named as in the source.\<close>

definition J2_K_rounded :: "(real \<Rightarrow> real) \<Rightarrow> J2 \<Rightarrow> real" where
  "J2_K_rounded rnd mat = rnd (E mat / rnd (3 * rnd (1 - rnd (2 * nu mat))))"

definition J2_G_rounded :: "(real \<Rightarrow> real) \<Rightarrow> J2 \<Rightarrow> real" where
  "J2_G_rounded rnd mat = rnd (rnd (0.5 * E mat) / rnd (1 + nu mat))"

definition J2_el_strain_rounded :: "(real \<Rightarrow> real) \<Rightarrow> State \<Rightarrow> 3 tensor \<Rightarrow> 3 tensor" where
  "J2_el_strain_rounded rnd state du_dX = rsub rnd (rsym rnd du_dX) (plastic_strain state)"

definition J2_p_rounded :: "(real \<Rightarrow> real) \<Rightarrow> J2 \<Rightarrow> State \<Rightarrow> 3 tensor \<Rightarrow> real" where
  "J2_p_rounded rnd mat state du_dX =
     rnd (J2_K_rounded rnd mat * rtr3 rnd (J2_el_strain_rounded rnd state du_dX))"

definition J2_s_rounded :: "(real \<Rightarrow> real) \<Rightarrow> J2 \<Rightarrow> State \<Rightarrow> 3 tensor \<Rightarrow> 3 tensor" where
  "J2_s_rounded rnd mat state du_dX =
     rscale rnd (rnd (2 * J2_G_rounded rnd mat)) (rdev3 rnd (J2_el_strain_rounded rnd state du_dX))"

definition J2_eta_rounded :: "(real \<Rightarrow> real) \<Rightarrow> J2 \<Rightarrow> State \<Rightarrow> 3 tensor \<Rightarrow> 3 tensor" where
  "J2_eta_rounded rnd mat state du_dX = rsub rnd (J2_s_rounded rnd mat state du_dX) (beta state)"

definition J2_phi_rounded ::
  "(real \<Rightarrow> real) \<Rightarrow> (real \<Rightarrow> real) \<Rightarrow> J2 \<Rightarrow> State \<Rightarrow> 3 tensor \<Rightarrow> real" where
  "J2_phi_rounded rnd sq mat state du_dX =
     rnd (rnd (sq (rnd (3 / 2)) * rnorm3 rnd sq (J2_eta_rounded rnd mat state du_dX))
          - rnd (sigma_y mat + rnd (Hi mat * accumulated_plastic_strain state)))"

definition J2_inc_rounded ::
  "(real \<Rightarrow> real) \<Rightarrow> (real \<Rightarrow> real) \<Rightarrow> J2 \<Rightarrow> State \<Rightarrow> 3 tensor \<Rightarrow> real" where
  "J2_inc_rounded rnd sq mat state du_dX =
     rnd (J2_phi_rounded rnd sq mat state du_dX
          / rnd (rnd (rnd (3 * J2_G_rounded rnd mat) + Hk mat) + Hi mat))"

definition J2_normal_rounded ::
  "(real \<Rightarrow> real) \<Rightarrow> (real \<Rightarrow> real) \<Rightarrow> J2 \<Rightarrow> State \<Rightarrow> 3 tensor \<Rightarrow> 3 tensor" where
  "J2_normal_rounded rnd sq mat state du_dX =
     rdiv rnd (J2_eta_rounded rnd mat state du_dX)
       (rnorm3 rnd sq (J2_eta_rounded rnd mat state du_dX))"

text \<open>
  The state after evaluating the material at a list of displacement gradients in turn,
  each evaluation starting from the state that the one before it left.
\<close>

fun J2_history_rounded ::
  "(real \<Rightarrow> real) \<Rightarrow> (real \<Rightarrow> real) \<Rightarrow> J2 \<Rightarrow> State \<Rightarrow> 3 tensor list \<Rightarrow> State" where
  "J2_history_rounded rnd sq mat state [] = state"
| "J2_history_rounded rnd sq mat state (du_dX # rest) =
     J2_history_rounded rnd sq mat (snd (J2_call_rounded rnd sq mat state du_dX)) rest"

section \<open>The nonlinear solid solver\<close>

text \<open>
  Modelled from the spec: the declarations of \<^verbatim>\<open>BoundaryCondition\<close>,
  \<^verbatim>\<open>serac::TimestepMethod\<close>, \<^verbatim>\<open>serac::Preconditioner\<close> and the
  logging macros \<^verbatim>\<open>SLIC_WARNING_IF\<close> and \<^verbatim>\<open>SLIC_ERROR_IF\<close> are in headers
  that are not among the sources. A boundary condition carries its marker list, a
  coefficient that is either scalar or vector valued ("a tagged union over
  scalar-function and vector-function"), the component index (\<open>-1\<close> for all
  components) and the resolved true-dof list. Of the time-stepping methods only
  \<open>QuasiStatic\<close> is told apart by the solver; of the preconditioners only
  \<open>BoomerAMG\<close>. A warning is appended to the log and the run goes on; an error is
  fatal, "configuration errors abort the run", and is the \<open>Inl\<close> result.
\<close>

datatype ('s, 'v) GeneralCoefficient = Coefficient 's | VectorCoefficient 'v

record ('s, 'v) BoundaryCondition =
  markers :: "int list"
  coef :: "('s, 'v) GeneralCoefficient"
  component :: int
  true_dofs :: "int list"

datatype TimestepMethod = QuasiStatic | BackwardEuler | OtherTimestepMethod nat

datatype Preconditioner = BoomerAMG | OtherPreconditioner nat

datatype slic_warning = ComponentMismatchWarning | BoomerAMGOrderingWarning

datatype slic_error =
    TractionNonVectorError
  | DisplacementAllComponentsNonVectorError
  | DisplacementSingleComponentNonScalarError

text \<open>
  The mesh holds a pointer to the grid function with its node coordinates;
  \<^verbatim>\<open>NewNodes\<close> moves the pointer. The two candidates are the members
  \<^verbatim>\<open>m_reference_nodes\<close> and \<^verbatim>\<open>m_deformed_nodes\<close>.
\<close>

datatype node_set = ReferenceNodes | DeformedNodes

text \<open>
  The members of the solver that the modelled functions read or write. The velocity and
  displacement true-dof vectors are the two blocks of \<^verbatim>\<open>m_block\<close>; both fields
  share one mesh. \<open>traction_integrators\<close> and \<open>essential_tdofs\<close> are what
  \<^verbatim>\<open>CompleteSetup\<close> hands to the nonlinear form, \<open>slic_log\<close> is the list of
  warnings issued so far. \<^verbatim>\<open>m_cycle\<close> is a C++ \<^verbatim>\<open>int\<close>, a word of 32 bits
  read as a signed number by \<open>sint\<close>; its increment wraps around, from
  \<open>2147483647\<close> to \<open>-2147483648\<close>.
\<close>

record ('s, 'v) NonlinearSolidSolver =
  m_timestepper :: TimestepMethod
  m_nat_bdr :: "('s, 'v) BoundaryCondition list"
  m_ess_bdr :: "('s, 'v) BoundaryCondition list"
  m_lin_params_prec :: Preconditioner
  m_velocity_gf :: "real list"
  m_velocity_true_vec :: "real list"
  m_displacement_gf :: "real list"
  m_displacement_true_vec :: "real list"
  m_reference_nodes :: "real list"
  m_deformed_nodes :: "real list"
  mesh_Nodes :: node_set
  m_time :: real
  m_cycle :: "32 word"
  traction_integrators :: "('v \<times> int list) list"
  essential_tdofs :: "int list"
  slic_log :: "slic_warning list"

text \<open>
  The services of the finite element library that the solver calls, taken as
  parameters: the dof maps of the displacement space, the projection of a coefficient
  onto a grid function, the transfer between a grid function and its true-dof vector,
  the Newton solver's \<^verbatim>\<open>Mult\<close> (right-hand side and start vector in; solution
  and the solver's own convergence flag out) and the ODE solver's \<^verbatim>\<open>Step\<close>
  (block vector, time and step size in and out).
\<close>

record ('s, 'v) mfem_services =
  VDofToDof :: "int \<Rightarrow> int"
  DofToVDof :: "int \<Rightarrow> int \<Rightarrow> int"
  ProjectCoefficient_vector :: "'v \<Rightarrow> int list \<Rightarrow> real list \<Rightarrow> real list"
  ProjectCoefficient_scalar :: "'s \<Rightarrow> int list \<Rightarrow> int \<Rightarrow> real list \<Rightarrow> real list"
  GetTrueDofs :: "real list \<Rightarrow> real list"
  SetFromTrueDofs :: "real list \<Rightarrow> real list"
  newton_Mult :: "('s, 'v) NonlinearSolidSolver \<Rightarrow> real list \<Rightarrow> real list \<Rightarrow> real list \<times> bool"
  ode_Step :: "('s, 'v) NonlinearSolidSolver \<Rightarrow> real list \<times> real list \<Rightarrow> real \<Rightarrow> real
                \<Rightarrow> (real list \<times> real list) \<times> real \<times> real"

subsection \<open>CompleteSetup: boundary conditions\<close>

text \<open>The loop over \<^verbatim>\<open>m_nat_bdr\<close> that adds the traction integrators.\<close>

fun traction_loop ::
  "('s, 'v) BoundaryCondition list \<Rightarrow> ('v \<times> int list) list \<Rightarrow> slic_error + ('v \<times> int list) list" where
  "traction_loop [] bfi = Inr bfi"
| "traction_loop (nat_bc_data # rest) bfi =
     (case coef nat_bc_data of
        VectorCoefficient c \<Rightarrow> traction_loop rest (bfi @ [(c, markers nat_bc_data)])
      | Coefficient c \<Rightarrow> Inl TractionNonVectorError)"

text \<open>The condition of the warning inside the \<^verbatim>\<open>std::transform\<close> lambda.\<close>

definition tdof_mismatch :: "('s, 'v) mfem_services \<Rightarrow> ('s, 'v) BoundaryCondition \<Rightarrow> int \<Rightarrow> bool" where
  "tdof_mismatch env bc tdof \<longleftrightarrow>
     component bc \<noteq> - 1 \<and> tdof \<noteq> DofToVDof env (VDofToDof env tdof) (component bc)"

text \<open>
  The \<^verbatim>\<open>std::transform\<close> over \<^verbatim>\<open>bc.true_dofs\<close>: the scalar dof of every true
  dof, and the warnings issued on the way.
\<close>

fun transform_tdofs ::
  "('s, 'v) mfem_services \<Rightarrow> ('s, 'v) BoundaryCondition \<Rightarrow> int list
     \<Rightarrow> slic_warning list \<times> int list" where
  "transform_tdofs env bc [] = ([], [])"
| "transform_tdofs env bc (tdof # rest) =
     (let dof = VDofToDof env tdof;
          w = (if component bc \<noteq> - 1 \<and> tdof \<noteq> DofToVDof env dof (component bc)
               then [ComponentMismatchWarning] else []);
          (ws, dofs) = transform_tdofs env bc rest
      in (w @ ws, dof # dofs))"

text \<open>
  The loop over \<^verbatim>\<open>m_ess_bdr\<close>; it carries the log, the displacement grid function
  and the list \<^verbatim>\<open>essential_dofs\<close>.
\<close>

fun essential_loop ::
  "('s, 'v) mfem_services \<Rightarrow> ('s, 'v) BoundaryCondition list
     \<Rightarrow> slic_warning list \<times> real list \<times> int list
     \<Rightarrow> slic_error + (slic_warning list \<times> real list \<times> int list)" where
  "essential_loop env [] acc = Inr acc"
| "essential_loop env (bc # rest) (lg, gf, essential_dofs) =
     (let (ws, dof_list) = transform_tdofs env bc (true_dofs bc);
          lg = lg @ ws
      in if component bc = - 1 then
           (case coef bc of
              VectorCoefficient c \<Rightarrow>
                essential_loop env rest
                  (lg, ProjectCoefficient_vector env c dof_list gf, essential_dofs @ true_dofs bc)
            | Coefficient c \<Rightarrow> Inl DisplacementAllComponentsNonVectorError)
         else
           (case coef bc of
              Coefficient c \<Rightarrow>
                essential_loop env rest
                  (lg, ProjectCoefficient_scalar env c dof_list (component bc) gf,
                   essential_dofs @ true_dofs bc)
            | VectorCoefficient c \<Rightarrow> Inl DisplacementSingleComponentNonScalarError))"

text \<open>
  \<^verbatim>\<open>CompleteSetup\<close>, as far as the boundary conditions, the essential dof list
  and the log go. \<^verbatim>\<open>Sort\<close> followed by \<^verbatim>\<open>Unique\<close> is sorting followed by
  the removal of adjacent duplicates. The displacement space is built with the ordering
  \<^verbatim>\<open>byVDIM\<close>, so the ordering warning is issued whenever the preconditioner is
  BoomerAMG. The integrators of the forms and the configuration of the linear and Newton
  solvers, which fill the rest of the function, are objects of the library and are not
  represented.
\<close>

definition CompleteSetup ::
  "('s, 'v) mfem_services \<Rightarrow> ('s, 'v) NonlinearSolidSolver
     \<Rightarrow> slic_error + ('s, 'v) NonlinearSolidSolver" where
  "CompleteSetup env st =
     (case traction_loop (m_nat_bdr st) [] of
        Inl e \<Rightarrow> Inl e
      | Inr bfi \<Rightarrow>
          (case essential_loop env (m_ess_bdr st) (slic_log st, m_displacement_gf st, []) of
             Inl e \<Rightarrow> Inl e
           | Inr (lg, gf, essential_dofs) \<Rightarrow>
               (let essential_dofs = remdups_adj (sort essential_dofs);
                    lg = (if m_lin_params_prec st = BoomerAMG
                          then lg @ [BoomerAMGOrderingWarning] else lg)
                in Inr (st\<lparr>traction_integrators := bfi,
                           m_displacement_gf := gf,
                           essential_tdofs := essential_dofs,
                           slic_log := lg\<rparr>))))"

subsection \<open>AdvanceTimestep\<close>

text \<open>\<^verbatim>\<open>Vector::Set(a, x)\<close> assigns \<open>a x\<close>; \<^verbatim>\<open>Vector::Add(a, x)\<close> adds \<open>a x\<close>.\<close>

definition Vector_Set :: "real \<Rightarrow> real list \<Rightarrow> real list" where
  "Vector_Set a x = map (\<lambda>xi. a * xi) x"

definition Vector_Add :: "real list \<Rightarrow> real \<Rightarrow> real list \<Rightarrow> real list" where
  "Vector_Add this a x = map2 (\<lambda>ti xi. ti + a * xi) this x"

definition QuasiStaticSolve ::
  "('s, 'v) mfem_services \<Rightarrow> ('s, 'v) NonlinearSolidSolver \<Rightarrow> ('s, 'v) NonlinearSolidSolver" where
  "QuasiStaticSolve env st =
     (let zero = []
      in st\<lparr>m_displacement_true_vec := fst (newton_Mult env st zero (m_displacement_true_vec st))\<rparr>)"

text \<open>
  \<^verbatim>\<open>AdvanceTimestep(double& dt)\<close> returns nothing; the model returns the solver
  after the step and the value left in \<^verbatim>\<open>dt\<close>.
\<close>

definition AdvanceTimestep ::
  "('s, 'v) mfem_services \<Rightarrow> ('s, 'v) NonlinearSolidSolver \<Rightarrow> real
     \<Rightarrow> ('s, 'v) NonlinearSolidSolver \<times> real" where
  "AdvanceTimestep env st dt =
     (let st = st\<lparr>m_velocity_true_vec := GetTrueDofs env (m_velocity_gf st)\<rparr>;
          st = st\<lparr>m_displacement_true_vec := GetTrueDofs env (m_displacement_gf st)\<rparr>;
          st = st\<lparr>mesh_Nodes := ReferenceNodes\<rparr>;
          (st, dt) =
            (if m_timestepper st = QuasiStatic then (QuasiStaticSolve env st, dt)
             else
               (let ((v, u), t, dt') =
                      ode_Step env st (m_velocity_true_vec st, m_displacement_true_vec st)
                        (m_time st) dt
                in (st\<lparr>m_velocity_true_vec := v, m_displacement_true_vec := u, m_time := t\<rparr>,
                    dt')));
          st = st\<lparr>m_velocity_gf := SetFromTrueDofs env (m_velocity_true_vec st)\<rparr>;
          st = st\<lparr>m_displacement_gf := SetFromTrueDofs env (m_displacement_true_vec st)\<rparr>;
          st = st\<lparr>m_deformed_nodes := Vector_Set 1 (m_displacement_gf st)\<rparr>;
          st = (if m_timestepper st = QuasiStatic
                then st\<lparr>m_deformed_nodes := Vector_Add (m_deformed_nodes st) 1 (m_reference_nodes st)\<rparr>
                else st);
          st = st\<lparr>mesh_Nodes := DeformedNodes\<rparr>;
          st = st\<lparr>m_cycle := m_cycle st + 1\<rparr>
      in (st, dt))"

section \<open>The thermal conduction module\<close>

text \<open>
  The members of \<^verbatim>\<open>ThermalConductionFunctional\<close> that the modelled functions
  read or write. A name cannot end in an underscore here, so the members
  \<^verbatim>\<open>dt_\<close>, \<^verbatim>\<open>previous_dt_\<close>, \<^verbatim>\<open>u_\<close>, \<^verbatim>\<open>J_\<close>, \<^verbatim>\<open>time_\<close>,
  \<^verbatim>\<open>cycle_\<close>, \<^verbatim>\<open>is_quasistatic_\<close> and \<^verbatim>\<open>gf_initialized_[0]\<close> are written
  with the prefix \<open>th_\<close> instead. \<^verbatim>\<open>J_\<close> is a \<^verbatim>\<open>unique_ptr\<close>, empty until
  the first assembly. \<open>assembly_log\<close> is not a member: it records every assembly of a
  mass or stiffness matrix with the vector it was linearised at, which is what an
  assembly call counter in a test would observe.
\<close>

datatype assembly_call = AssembleMass "real list" | AssembleStiffness "real list"

record ThermalConductionFunctional =
  th_is_quasistatic :: bool
  th_gf_initialized_0 :: bool
  temperature_gf :: "real list"
  temperature_true_vec :: "real list"
  th_time :: real
  th_cycle :: "32 word"
  th_dt :: real
  th_previous_dt :: real
  th_u :: "real list"
  th_J :: "real list list option"
  assembly_log :: "assembly_call list"

text \<open>
  The collaborators, taken as parameters: the assembled Jacobians of the mass and
  stiffness functionals, the transfer between the temperature grid function and its
  true-dof vector, the equation solver's \<^verbatim>\<open>Mult\<close> and the ODE object's
  \<^verbatim>\<open>Step\<close>. The last two hold references to members of the module and call back
  into it, so they map the whole module state.
\<close>

record thermal_services =
  M_gradient :: "real list \<Rightarrow> real list list"
  K_gradient :: "real list \<Rightarrow> real list list"
  initializeTrueVec :: "real list \<Rightarrow> real list"
  distributeSharedDofs :: "real list \<Rightarrow> real list"
  nonlin_solver_Mult ::
    "ThermalConductionFunctional \<Rightarrow> real list \<Rightarrow> ThermalConductionFunctional \<times> bool"
  ode_Step_thermal ::
    "ThermalConductionFunctional \<Rightarrow> real \<Rightarrow> ThermalConductionFunctional \<times> real"

datatype slic_assertion = ThermalStateNotInitialized

text \<open>
  The assignments of the constructor body to the members above, applied to the object
  as its member initialisers left it; \<open>dyn_options\<close> tells whether
  \<^verbatim>\<open>options.dyn_options\<close> holds a value.
\<close>

definition ThermalConductionFunctional_ctor ::
  "bool \<Rightarrow> ThermalConductionFunctional \<Rightarrow> ThermalConductionFunctional" where
  "ThermalConductionFunctional_ctor dyn_options this =
     (let this = this\<lparr>th_J := None\<rparr>;
          this = (if dyn_options then this\<lparr>th_is_quasistatic := False\<rparr>
                  else this\<lparr>th_is_quasistatic := True\<rparr>);
          this = this\<lparr>th_dt := 0\<rparr>;
          this = this\<lparr>th_previous_dt := - 1\<rparr>
      in this)"

text \<open>
  \<^verbatim>\<open>add(a, x, b, y, z)\<close> stores \<open>a x + b y\<close> in \<open>z\<close>; \<^verbatim>\<open>mfem::Add(a, A, b, B)\<close>
  is the matrix \<open>a A + b B\<close>.
\<close>

definition add_vectors :: "real \<Rightarrow> real list \<Rightarrow> real \<Rightarrow> real list \<Rightarrow> real list" where
  "add_vectors a x b y = map2 (\<lambda>xi yi. a * xi + b * yi) x y"

definition Matrix_Add :: "real \<Rightarrow> real list list \<Rightarrow> real \<Rightarrow> real list list \<Rightarrow> real list list" where
  "Matrix_Add a A b B = map2 (\<lambda>ra rb. map2 (\<lambda>x y. a * x + b * y) ra rb) A B"

text \<open>
  The Jacobian callback that \<^verbatim>\<open>completeSetup\<close> installs in the dynamic case. It
  returns \<^verbatim>\<open>*J_\<close>; the model returns the content of the pointer beside the state.
\<close>

definition dynamic_jacobian ::
  "thermal_services \<Rightarrow> ThermalConductionFunctional \<Rightarrow> real list
     \<Rightarrow> real list list option \<times> ThermalConductionFunctional" where
  "dynamic_jacobian env this du_dt =
     (let this =
            (if th_dt this \<noteq> th_previous_dt this then
               (let K_arg = add_vectors 1 (th_u this) (th_dt this) du_dt;
                    m_mat = M_gradient env (th_u this);
                    this = this\<lparr>assembly_log := assembly_log this @ [AssembleMass (th_u this)]\<rparr>;
                    k_mat = K_gradient env K_arg;
                    this = this\<lparr>assembly_log := assembly_log this @ [AssembleStiffness K_arg]\<rparr>
                in this\<lparr>th_J := Some (Matrix_Add 1 m_mat (th_dt this) k_mat)\<rparr>)
             else this)
      in (th_J this, this))"

text \<open>
  The Newton solver asks for the Jacobian once in every iteration, at the current
  iterate; between two requests of one solve nothing else writes to the module. A run
  of requests is therefore the callback applied to the iterates in turn.
\<close>

fun jacobian_requests ::
  "thermal_services \<Rightarrow> ThermalConductionFunctional \<Rightarrow> real list list \<Rightarrow> ThermalConductionFunctional" where
  "jacobian_requests env this [] = this"
| "jacobian_requests env this (du_dt # rest) =
     jacobian_requests env (snd (dynamic_jacobian env this du_dt)) rest"

text \<open>
  \<^verbatim>\<open>advanceTimestep(double& dt)\<close>. The assertion on \<^verbatim>\<open>gf_initialized_[0]\<close> is
  the only way out other than the end of the function.
\<close>

definition advanceTimestep ::
  "thermal_services \<Rightarrow> ThermalConductionFunctional \<Rightarrow> real
     \<Rightarrow> slic_assertion + ThermalConductionFunctional \<times> real" where
  "advanceTimestep env this dt =
     (let this = this\<lparr>temperature_true_vec := initializeTrueVec env (temperature_gf this)\<rparr>;
          zero = replicate (length (temperature_true_vec this)) 0;
          stepped =
            (if th_is_quasistatic this then Inr (fst (nonlin_solver_Mult env this zero), dt)
             else if \<not> th_gf_initialized_0 this then Inl ThermalStateNotInitialized
             else Inr (ode_Step_thermal env this dt))
      in case stepped of
           Inl a \<Rightarrow> Inl a
         | Inr (this, dt) \<Rightarrow>
             (let this = this\<lparr>temperature_gf := distributeSharedDofs env (temperature_true_vec this)\<rparr>;
                  this = this\<lparr>th_cycle := th_cycle this + 1\<rparr>
              in Inr (this, dt)))"

section \<open>Example inputs\<close>

text \<open>
  Concrete tensors, materials, states and services on which the theorems below are
  instantiated: diagonal tensors, a uniaxial isochoric stretch, a
  hardening J2 material with \<open>G = 1\<close>, the zero state, and two displacement
  gradients: the one with rows \<open>(0, 0.1, 0)\<close>, \<open>(0.2, 0.2, 0)\<close>,
  \<open>(0, 0, 0)\<close>, its entries the binary64 numbers nearest to the decimal literals,
  and a symmetric one, in any dimension, with \<open>1/4\<close> in row 0, column 1, and in
  row 1, column 0.
\<close>

definition diag3 :: "real \<Rightarrow> real \<Rightarrow> real \<Rightarrow> 3 tensor" where
  "diag3 a b c = Tensor (\<lambda>i j. if i = j then (if i = 0 then a else if i = 1 then b else c) else 0)"

definition stretch :: "real \<Rightarrow> 3 tensor" where
  "stretch a = diag3 (2 * a) (- a) (- a)"

definition mat_hardening :: J2 where
  "mat_hardening = \<lparr>E = 2, nu = 0, Hi = 1, Hk = 2, sigma_y = 1, density = 1\<rparr>"

definition State_zero :: State where
  "State_zero = \<lparr>beta = 0, plastic_strain = 0, accumulated_plastic_strain = 0\<rparr>"

definition gradient_example :: "3 tensor" where
  "gradient_example =
     Tensor (\<lambda>i j. if i = 0 \<and> j = 1 then round64 (1 / 10)
                   else if i = 1 \<and> (j = 0 \<or> j = 1) then round64 (1 / 5) else 0)"

definition gradient_symmetric :: "'d::{zero,one} tensor" where
  "gradient_symmetric =
     Tensor (\<lambda>i j. if (i = 0 \<and> j = 1) \<or> (i = 1 \<and> j = 0) then 1 / 4 else 0)"

text \<open>
  Two diagonal displacement gradients, a uniaxial strain and a pure shear in principal
  axes, and the states that the hardening material reaches with them in binary64
  arithmetic: after one evaluation at the first, and after one and after two evaluations
  at the second. All entries are binary64 numbers; the accumulated plastic strains are
  \<open>0.16666666666666663\<close>, \<open>0.1220084679281462\<close> and
  \<open>0.12200846792814624\<close>.
\<close>

definition gradient_uniaxial :: "3 tensor" where
  "gradient_uniaxial = diag3 1 0 0"

definition gradient_shear :: "3 tensor" where
  "gradient_shear = diag3 (1 / 2) (- 1 / 2) 0"

definition State_uniaxial :: State where
  "State_uniaxial =
     \<lparr>beta = diag3 (2001599834386887 / 2 ^ 53) (- 8006399337547547 / 2 ^ 56) (- 8006399337547547 / 2 ^ 56),
      plastic_strain = diag3 (6004799503160661 / 2 ^ 55) (- 1501199875790165 / 2 ^ 54) (- 1501199875790165 / 2 ^ 54),
      accumulated_plastic_strain = 1501199875790165 / 2 ^ 53\<rparr>"

definition State_shear :: State where
  "State_shear =
     \<lparr>beta = diag3 (1268963446790561 / 2 ^ 53) (- 1268963446790561 / 2 ^ 53) 0,
      plastic_strain = diag3 (7613780680743365 / 2 ^ 56) (- 7613780680743365 / 2 ^ 56) 0,
      accumulated_plastic_strain = 8791636651155909 / 2 ^ 56\<rparr>"

definition State_shear_again :: State where
  "State_shear_again =
     \<lparr>beta = diag3 (2537926893581123 / 2 ^ 54) (- 2537926893581123 / 2 ^ 54) 0,
      plastic_strain = diag3 (7613780680743367 / 2 ^ 56) (- 7613780680743367 / 2 ^ 56) 0,
      accumulated_plastic_strain = 1098954581394489 / 2 ^ 53\<rparr>"

definition elastic_example :: LinearIsotropic where
  "elastic_example = \<lparr>LI_density = 1, LI_K = 10, LI_G = 1\<rparr>"

definition neo_example :: NeoHookean where
  "neo_example = \<lparr>NH_density = 1, NH_K = 10, NH_G = 1\<rparr>"

text \<open>
  Services of a space with three components per node ordered \<^verbatim>\<open>byVDIM\<close>, serial
  (grid function and true-dof vector coincide), with a Newton solver that adds one to
  every unknown and an explicit Euler step; the second record differs from the first
  only in that its Newton solver reports that it did not converge.
\<close>

definition services_example :: "(real, real list) mfem_services" where
  "services_example =
     \<lparr>VDofToDof = (\<lambda>vdof. vdof div 3),
      DofToVDof = (\<lambda>dof vd. dof * 3 + vd),
      ProjectCoefficient_vector = (\<lambda>c dofs gf. gf),
      ProjectCoefficient_scalar = (\<lambda>c dofs vd gf. gf),
      GetTrueDofs = (\<lambda>gf. gf),
      SetFromTrueDofs = (\<lambda>tv. tv),
      newton_Mult = (\<lambda>st b x. (map (\<lambda>xi. xi + 1) x, True)),
      ode_Step = (\<lambda>st (v, u) t dt. ((v, map2 (\<lambda>ui vi. ui + dt * vi) u v), t + dt, dt))\<rparr>"

definition services_diverged :: "(real, real list) mfem_services" where
  "services_diverged =
     services_example\<lparr>newton_Mult := (\<lambda>st b x. (map (\<lambda>xi. xi + 1) x, False))\<rparr>"

definition solver_example :: "(real, real list) NonlinearSolidSolver" where
  "solver_example =
     \<lparr>m_timestepper = QuasiStatic,
      m_nat_bdr = [\<lparr>markers = [2], coef = VectorCoefficient [0, 0, 1], component = - 1, true_dofs = []\<rparr>],
      m_ess_bdr = [\<lparr>markers = [1], coef = Coefficient 0, component = 0, true_dofs = [0, 4, 3]\<rparr>],
      m_lin_params_prec = OtherPreconditioner 0,
      m_velocity_gf = [0, 0, 0, 1, 0, 0],
      m_velocity_true_vec = [0, 0, 0, 0, 0, 0],
      m_displacement_gf = [0, 0, 0, 0, 0, 0],
      m_displacement_true_vec = [0, 0, 0, 0, 0, 0],
      m_reference_nodes = [0, 0, 0, 1, 0, 0],
      m_deformed_nodes = [0, 0, 0, 1, 0, 0],
      mesh_Nodes = ReferenceNodes,
      m_time = 0,
      m_cycle = 0,
      traction_integrators = [],
      essential_tdofs = [],
      slic_log = []\<rparr>"

definition solver_dynamic :: "(real, real list) NonlinearSolidSolver" where
  "solver_dynamic =
     solver_example\<lparr>m_timestepper := BackwardEuler, m_displacement_gf := [0, 0, 0, 1, 0, 0]\<rparr>"

definition thermal_services_example :: thermal_services where
  "thermal_services_example =
     \<lparr>M_gradient = (\<lambda>u. [[1]]),
      K_gradient = (\<lambda>u. [[2]]),
      initializeTrueVec = (\<lambda>gf. gf),
      distributeSharedDofs = (\<lambda>tv. tv),
      nonlin_solver_Mult = (\<lambda>this b. (this\<lparr>temperature_true_vec := b\<rparr>, True)),
      ode_Step_thermal = (\<lambda>this dt. (this\<lparr>th_time := th_time this + dt\<rparr>, dt))\<rparr>"

text \<open>
  A dynamic thermal module as the constructor leaves it, and the same module once the
  time integrator has stored the step size \<open>1/10\<close> of the first step in
  \<^verbatim>\<open>dt_\<close>.
\<close>

definition thermal_example :: ThermalConductionFunctional where
  "thermal_example =
     ThermalConductionFunctional_ctor True
       \<lparr>th_is_quasistatic = True, th_gf_initialized_0 = True,
        temperature_gf = [1], temperature_true_vec = [1], th_time = 0, th_cycle = 0,
        th_dt = 0, th_previous_dt = 0, th_u = [1], th_J = None, assembly_log = []\<rparr>"

definition thermal_first_step :: ThermalConductionFunctional where
  "thermal_first_step = thermal_example\<lparr>th_dt := 1 / 10\<rparr>"

text \<open>
  A quasi-static thermal module as the constructor leaves it, and thermal services
  whose nonlinear solver reports that it did not converge.
\<close>

definition thermal_quasistatic :: ThermalConductionFunctional where
  "thermal_quasistatic =
     ThermalConductionFunctional_ctor False
       \<lparr>th_is_quasistatic = True, th_gf_initialized_0 = True,
        temperature_gf = [1], temperature_true_vec = [1], th_time = 0, th_cycle = 0,
        th_dt = 0, th_previous_dt = 0, th_u = [1], th_J = None, assembly_log = []\<rparr>"

definition thermal_services_diverged :: thermal_services where
  "thermal_services_diverged =
     thermal_services_example
       \<lparr>nonlin_solver_Mult := (\<lambda>this b. (this\<lparr>temperature_true_vec := b\<rparr>, False))\<rparr>"

section \<open>Tensor algebra\<close>

lemma entry_zero [simp]: "entry 0 i j = 0"
  by (simp add: zero_tensor_def)

lemma entry_plus [simp]: "entry (A + B) i j = entry A i j + entry B i j"
  by (simp add: plus_tensor_def)

lemma entry_minus [simp]: "entry (A - B) i j = entry A i j - entry B i j"
  by (simp add: minus_tensor_def)

lemma entry_uminus [simp]: "entry (- A) i j = - entry A i j"
  by (simp add: uminus_tensor_def)

lemma entry_scaleR [simp]: "entry (c *\<^sub>R A) i j = c * entry A i j"
  by (simp add: scaleR_tensor_def)

lemma entry_Identity [simp]: "entry Identity i j = (if i = j then 1 else 0)"
  by (simp add: Identity_def)

lemma entry_transpose_t [simp]: "entry (transpose_t A) i j = entry A j i"
  by (simp add: transpose_t_def)

lemma entry_sym_t [simp]: "entry (sym_t A) i j = (entry A i j + entry A j i) / 2"
  by (simp add: sym_t_def)

lemma entry_normalize_t [simp]: "entry (normalize_t A) i j = entry A i j / norm_t A"
  by (simp add: normalize_t_def)

lemma entry_dot [simp]: "entry (dot A B) i j = (\<Sum>k\<in>UNIV. entry A i k * entry B k j)"
  by (simp add: dot_def)

lemma tensor_eqI: "(\<And>i j. entry A i j = entry B i j) \<Longrightarrow> A = B"
  by (simp add: tensor.expand fun_eq_iff)

lemma tr_zero [simp]: "tr 0 = 0"
  by (simp add: tr_def)

lemma tr_add [simp]: "tr (A + B) = tr A + tr B"
  by (simp add: tr_def sum.distrib)

lemma tr_diff [simp]: "tr (A - B) = tr A - tr B"
  by (simp add: tr_def sum_subtractf)

lemma tr_scaleR [simp]: "tr (c *\<^sub>R A) = c * tr A"
  by (simp add: tr_def sum_distrib_left)

lemma tr_Identity [simp]: "tr (Identity :: 'd::finite tensor) = real CARD('d)"
  by (simp add: tr_def)

lemma tr_dev [simp]: "tr (dev A) = 0"
  by (simp add: dev_def)

lemma tr_transpose_t [simp]: "tr (transpose_t A) = tr A"
  by (simp add: tr_def)

lemma dev_zero [simp]: "dev 0 = 0"
  by (simp add: dev_def)

lemma sym_t_zero [simp]: "sym_t 0 = 0"
  by (rule tensor_eqI) simp

lemma norm_t_nonneg [simp]: "0 \<le> norm_t A"
  by (simp add: norm_t_def sum_nonneg)

subsection \<open>Transposition\<close>

lemma transpose_t_zero [simp]: "transpose_t 0 = 0"
  by (rule tensor_eqI) simp

lemma transpose_t_Identity [simp]: "transpose_t Identity = Identity"
  by (rule tensor_eqI) auto

lemma transpose_t_involution [simp]: "transpose_t (transpose_t A) = A"
  by (rule tensor_eqI) simp

lemma transpose_t_sym_t [simp]: "transpose_t (sym_t A) = sym_t A"
  by (rule tensor_eqI) simp

subsection \<open>Tensors of dimension two and three\<close>

lemma idx3_cases: "(i::3) = 0 \<or> i = 1 \<or> i = 2"
proof (induct i)
  case (of_int z)
  then have "0 \<le> z" and "z < 3" by simp_all
  then have "z = 0 \<or> z = 1 \<or> z = 2" by arith
  then show ?case by (elim disjE) simp_all
qed

lemma UNIV3: "(UNIV :: 3 set) = {0, 1, 2}"
proof -
  have "x \<in> {0, 1, 2}" for x :: 3
    using idx3_cases [of x] by (elim disjE) simp_all
  then show ?thesis by (intro set_eqI iffI UNIV_I)
qed

lemma sum3: "(\<Sum>i\<in>(UNIV :: 3 set). f i) = f 0 + f 1 + f 2"
proof -
  have "(\<Sum>i\<in>(UNIV :: 3 set). f i) = (\<Sum>i\<in>{0, 1, 2}. f i)"
    by (simp only: UNIV3)
  also have "\<dots> = f 0 + f 1 + f 2"
    by (simp add: add.assoc)
  finally show ?thesis .
qed

lemma idx2_cases: "(i::2) = 0 \<or> i = 1"
proof (induct i)
  case (of_int z)
  then have "0 \<le> z" and "z < 2" by simp_all
  then have "z = 0 \<or> z = 1" by arith
  then show ?case by (elim disjE) simp_all
qed

lemma UNIV2: "(UNIV :: 2 set) = {0, 1}"
proof -
  have "x \<in> {0, 1}" for x :: 2
    using idx2_cases [of x] by (elim disjE) simp_all
  then show ?thesis by (intro set_eqI iffI UNIV_I)
qed

lemma sum2: "(\<Sum>i\<in>(UNIV :: 2 set). f i) = f 0 + f 1"
proof -
  have "(\<Sum>i\<in>(UNIV :: 2 set). f i) = (\<Sum>i\<in>{0, 1}. f i)"
    by (simp only: UNIV2)
  also have "\<dots> = f 0 + f 1"
    by simp
  finally show ?thesis .
qed

lemma entry_diag3 [simp]:
  "entry (diag3 a b c) i j = (if i = j then (if i = 0 then a else if i = 1 then b else c) else 0)"
  by (simp add: diag3_def)

lemma tr_diag3: "tr (diag3 a b c) = a + b + c"
  by (simp add: tr_def sum3)

lemma norm_t_diag3: "norm_t (diag3 a b c) = sqrt (a\<^sup>2 + b\<^sup>2 + c\<^sup>2)"
  by (simp add: norm_t_def sum3)

lemma sym_t_diag3: "sym_t (diag3 a b c) = diag3 a b c"
  by (rule tensor_eqI) simp

lemma scaleR_diag3: "k *\<^sub>R diag3 a b c = diag3 (k * a) (k * b) (k * c)"
  by (rule tensor_eqI) simp

lemma diff_diag3: "diag3 a b c - diag3 a' b' c' = diag3 (a - a') (b - b') (c - c')"
  by (rule tensor_eqI) simp

lemma zero_diag3: "0 = diag3 0 0 0"
  by (rule tensor_eqI) simp

lemma Identity_diag3: "Identity = diag3 1 1 1"
  by (rule tensor_eqI) simp

lemma dev_diag3:
  "dev (diag3 a b c) = diag3 (a - (a + b + c) / 3) (b - (a + b + c) / 3) (c - (a + b + c) / 3)"
  by (simp add: dev_def tr_diag3 Identity_diag3 scaleR_diag3 diff_diag3)

lemma norm_t_stretch: "norm_t (stretch a) = sqrt 6 * \<bar>a\<bar>"
proof -
  have "(2 * a)\<^sup>2 + (- a)\<^sup>2 + (- a)\<^sup>2 = 6 * a\<^sup>2"
    by (simp add: power2_eq_square)
  then show ?thesis
    by (simp add: stretch_def norm_t_diag3 real_sqrt_mult)
qed

subsection \<open>Square roots of the return mapping\<close>

lemma sqrt6_eq: "sqrt 6 = 2 * sqrt (3 / 2)"
proof -
  have "sqrt 6 = sqrt (4 * (3 / 2))" by simp
  also have "\<dots> = sqrt 4 * sqrt (3 / 2)" by (rule real_sqrt_mult)
  finally show ?thesis by simp
qed

section \<open>Binary64 rounding\<close>

text \<open>
  \<open>round64_valI\<close> and \<open>sqrt64_valI\<close> evaluate a rounding and a rounded
  square root: the number is scaled into the range of the 53-bit integers, where the
  nearest integer is compared with it, for the square root through the squares.
\<close>

lemma rne_eqI:
  assumes "\<bar>x - of_int m\<bar> < 1 / 2"
  shows "rne x = m"
proof (cases "of_int m \<le> x")
  case True
  with assms have "\<lfloor>x\<rfloor> = m" by (intro floor_unique) auto
  with assms True show ?thesis by (simp add: rne_def Let_def)
next
  case False
  with assms have f: "\<lfloor>x\<rfloor> = m - 1" by (intro floor_unique) auto
  from assms False have "1 / 2 < x - of_int (m - 1)" by simp
  with f show ?thesis by (simp add: rne_def Let_def)
qed

lemma rne_tie: "even m \<Longrightarrow> \<bar>x - of_int m\<bar> = 1 / 2 \<Longrightarrow> rne x = m"
proof -
  assume e: "even m" and t: "\<bar>x - of_int m\<bar> = 1 / 2"
  show ?thesis
  proof (cases "of_int m \<le> x")
    case True
    with t have x: "x = of_int m + 1 / 2" by simp
    then have f: "\<lfloor>x\<rfloor> = m" by (simp add: floor_unique)
    show ?thesis using e by (simp add: rne_def Let_def f) (simp add: x)
  next
    case False
    with t have x: "x = of_int (m - 1) + 1 / 2" by simp
    then have f: "\<lfloor>x\<rfloor> = m - 1" by (intro floor_unique) simp_all
    show ?thesis using e by (simp add: rne_def Let_def f) (simp add: x)
  qed
qed

lemma round64_zero [simp]: "round64 0 = 0"
  by (simp add: round64_def)

lemma round64_eqI:
  assumes lo: "2 ^ 52 \<le> \<bar>x\<bar> * 2 ^ n" and hi: "\<bar>x\<bar> * 2 ^ n < 2 ^ 53"
    and m: "rne (x * 2 ^ n) = m"
  shows "round64 x = of_int m / 2 ^ n"
proof -
  from lo have nz: "x \<noteq> 0" by auto
  then have pos: "0 < \<bar>x\<bar>" by simp
  have l: "log 2 (\<bar>x\<bar> * 2 ^ n) = log 2 \<bar>x\<bar> + real n"
    using pos by (simp add: log_mult)
  have c: "log 2 ((2::real) ^ k) = real k" for k
    by simp
  have "log 2 (2 ^ 52) \<le> log 2 (\<bar>x\<bar> * 2 ^ n)"
    using lo pos by (subst log_le_cancel_iff) simp_all
  then have "real 52 \<le> log 2 \<bar>x\<bar> + real n"
    by (simp only: c l)
  then have a: "52 - real n \<le> log 2 \<bar>x\<bar>" by simp
  have "log 2 (\<bar>x\<bar> * 2 ^ n) < log 2 (2 ^ 53)"
    using hi pos by (subst log_less_cancel_iff) simp_all
  then have "log 2 \<bar>x\<bar> + real n < real 53"
    by (simp only: c l)
  then have b: "log 2 \<bar>x\<bar> < 53 - real n" by simp
  have "\<lfloor>log 2 \<bar>x\<bar>\<rfloor> = 52 - int n"
    using a b by (intro floor_unique) simp_all
  then have u: "(2::real) powr (of_int \<lfloor>log 2 \<bar>x\<bar>\<rfloor> - 52) = 1 / 2 ^ n"
    by (simp add: powr_minus powr_realpow divide_inverse)
  show ?thesis
    using nz m by (simp add: round64_def u Let_def)
qed

lemma round64_valI:
  assumes "2 ^ 52 \<le> \<bar>x\<bar> * 2 ^ n" and "\<bar>x\<bar> * 2 ^ n < 2 ^ 53"
    and "rne (x * 2 ^ n) = m" and "r = of_int m / 2 ^ n"
  shows "round64 x = r"
  using round64_eqI [OF assms(1) assms(2) assms(3)] assms(4) by simp

lemma sqrt64_valI:
  assumes l: "(of_int m - 1 / 2)\<^sup>2 < y * 4 ^ n" and u: "y * 4 ^ n < (of_int m + 1 / 2)\<^sup>2"
    and m: "2 ^ 52 < m" "m < 2 ^ 53" and r: "r = of_int m / 2 ^ n"
  shows "sqrt64 y = r"
proof -
  have p: "0 \<le> of_int m + (1 / 2 :: real)" using m by simp
  have z: "sqrt y * 2 ^ n = sqrt (y * 4 ^ n)"
  proof -
    have "sqrt ((4::real) ^ n) = 2 ^ n"
      by (simp add: real_sqrt_power)
    then show ?thesis by (simp add: real_sqrt_mult)
  qed
  have lo: "of_int m - 1 / 2 < sqrt y * 2 ^ n"
    unfolding z using l by (rule real_less_rsqrt)
  have "sqrt (y * 4 ^ n) < sqrt ((of_int m + 1 / 2)\<^sup>2)"
    using u by (simp only: real_sqrt_less_iff)
  also have "\<dots> = of_int m + 1 / 2"
    using p by simp
  finally have hi: "sqrt y * 2 ^ n < of_int m + 1 / 2"
    unfolding z .
  have mr: "(2::real) ^ 52 + 1 \<le> of_int m" "of_int m + 1 \<le> (2::real) ^ 53"
    using m by (simp_all add: of_int_le_iff [symmetric] del: of_int_le_iff)
  have pos: "0 \<le> sqrt y * 2 ^ n" using lo mr by simp
  moreover have "0 < (2::real) ^ n"
    by simp
  ultimately have "0 \<le> sqrt y"
    by (simp only: zero_le_mult_iff) linarith
  then have a: "\<bar>sqrt y\<bar> * 2 ^ n = sqrt y * 2 ^ n"
    by (simp only: abs_of_nonneg)
  have "round64 (sqrt y) = of_int m / 2 ^ n"
  proof (rule round64_eqI)
    show "2 ^ 52 \<le> \<bar>sqrt y\<bar> * 2 ^ n" unfolding a using lo mr by simp
    show "\<bar>sqrt y\<bar> * 2 ^ n < 2 ^ 53" unfolding a using hi mr by simp
    have "\<bar>sqrt y * 2 ^ n - of_int m\<bar> < 1 / 2"
      using lo hi by linarith
    then show "rne (sqrt y * 2 ^ n) = m"
      by (rule rne_eqI)
  qed
  then show ?thesis by (simp add: sqrt64_def r)
qed

lemma sqrt64_zero [simp]: "sqrt64 0 = 0"
  by (simp add: sqrt64_def)

subsection \<open>The roundings of the examples\<close>

lemma round64_value_1 [round64_values]: "round64 1 = 1"
  by (rule round64_valI [where n = 52 and m = "4503599627370496"]) (simp_all add: rne_eqI)

lemma round64_value_2 [round64_values]: "round64 3 = 3"
  by (rule round64_valI [where n = 51 and m = "6755399441055744"]) (simp_all add: rne_eqI)

lemma round64_value_3 [round64_values]: "round64 (2 / 3) = 6004799503160661 / 9007199254740992"
  by (rule round64_valI [where n = 53 and m = "6004799503160661"]) (simp_all add: rne_eqI)

lemma round64_value_4 [round64_values]: "round64 2 = 2"
  by (rule round64_valI [where n = 51 and m = "4503599627370496"]) (simp_all add: rne_eqI)

lemma round64_value_5 [round64_values]: "round64 (6004799503160661 / 9007199254740992) = 6004799503160661 / 9007199254740992"
  by (rule round64_valI [where n = 53 and m = "6004799503160661"]) (simp_all add: rne_eqI)

lemma round64_value_6 [round64_values]: "round64 (1 / 3) = 6004799503160661 / 18014398509481984"
  by (rule round64_valI [where n = 54 and m = "6004799503160661"]) (simp_all add: rne_eqI)

lemma round64_value_7 [round64_values]: "round64 (6004799503160661 / 18014398509481984) = 6004799503160661 / 18014398509481984"
  by (rule round64_valI [where n = 54 and m = "6004799503160661"]) (simp_all add: rne_eqI)

lemma round64_value_8 [round64_values]: "round64 (12009599006321323 / 18014398509481984) = 3002399751580331 / 4503599627370496"
  by (rule round64_valI [where n = 53 and m = "6004799503160662"]) (simp_all add: rne_tie)

lemma round64_value_9 [round64_values]: "round64 (- (6004799503160661 / 18014398509481984)) = - (6004799503160661 / 18014398509481984)"
  by (rule round64_valI [where n = 54 and m = "- 6004799503160661"]) (simp_all add: rne_eqI)

lemma round64_value_10 [round64_values]: "round64 (3002399751580331 / 2251799813685248) = 3002399751580331 / 2251799813685248"
  by (rule round64_valI [where n = 52 and m = "6004799503160662"]) (simp_all add: rne_eqI)

lemma round64_value_11 [round64_values]: "round64 (- (6004799503160661 / 9007199254740992)) = - (6004799503160661 / 9007199254740992)"
  by (rule round64_valI [where n = 53 and m = "- 6004799503160661"]) (simp_all add: rne_eqI)

lemma round64_value_12 [round64_values]: "round64 (9014404268289633301131946069561 / 5070602400912917605986812821504) = 4003199668773775 / 2251799813685248"
  by (rule round64_valI [where n = 52 and m = "8006399337547550"]) (simp_all add: rne_eqI)

lemma round64_value_13 [round64_values]: "round64 (4003199668773775 / 2251799813685248) = 4003199668773775 / 2251799813685248"
  by (rule round64_valI [where n = 52 and m = "8006399337547550"]) (simp_all add: rne_eqI)

lemma round64_value_14 [round64_values]: "round64 (36057617073158521194928777956921 / 81129638414606681695789005144064) = 2001599834386887 / 4503599627370496"
  by (rule round64_valI [where n = 54 and m = "8006399337547548"]) (simp_all add: rne_eqI)

lemma round64_value_15 [round64_values]: "round64 (10007999171934437 / 4503599627370496) = 2501999792983609 / 1125899906842624"
  by (rule round64_valI [where n = 51 and m = "5003999585967218"]) (simp_all add: rne_tie)

lemma round64_value_16 [round64_values]: "round64 (2501999792983609 / 1125899906842624) = 2501999792983609 / 1125899906842624"
  by (rule round64_valI [where n = 51 and m = "5003999585967218"]) (simp_all add: rne_eqI)

lemma round64_value_17 [round64_values]: "round64 (12009599006321323 / 4503599627370496) = 3002399751580331 / 1125899906842624"
  by (rule round64_valI [where n = 51 and m = "6004799503160662"]) (simp_all add: rne_tie)

lemma round64_value_18 [round64_values]: "round64 (3 / 2) = 3 / 2"
  by (rule round64_valI [where n = 52 and m = "6755399441055744"]) (simp_all add: rne_eqI)

lemma round64_value_19 [round64_values]: "round64 (10141204801825834335596395658313 / 5070602400912917605986812821504) = 9007199254740991 / 4503599627370496"
  by (rule round64_valI [where n = 52 and m = "9007199254740991"]) (simp_all add: rne_eqI)

lemma round64_value_20 [round64_values]: "round64 (4503599627370495 / 4503599627370496) = 4503599627370495 / 4503599627370496"
  by (rule round64_valI [where n = 53 and m = "9007199254740990"]) (simp_all add: rne_eqI)

lemma round64_value_21 [round64_values]: "round64 5 = 5"
  by (rule round64_valI [where n = 50 and m = "5629499534213120"]) (simp_all add: rne_eqI)

lemma round64_value_22 [round64_values]: "round64 6 = 6"
  by (rule round64_valI [where n = 50 and m = "6755399441055744"]) (simp_all add: rne_eqI)

lemma round64_value_23 [round64_values]: "round64 (1501199875790165 / 9007199254740992) = 1501199875790165 / 9007199254740992"
  by (rule round64_valI [where n = 55 and m = "6004799503160660"]) (simp_all add: rne_eqI)

lemma round64_value_24 [round64_values]: "round64 (3002399751580331 / 3677173697615391) = 7354347395230783 / 9007199254740992"
  by (rule round64_valI [where n = 53 and m = "7354347395230783"]) (simp_all add: rne_eqI)

lemma round64_value_25 [round64_values]: "round64 (- (667199944795629 / 1634299421162396)) = - (3677173697615391 / 9007199254740992)"
  by (rule round64_valI [where n = 54 and m = "- 7354347395230782"]) (simp_all add: rne_eqI)

lemma round64_value_26 [round64_values]: "round64 (2757880273211543 / 1125899906842624) = 2757880273211543 / 1125899906842624"
  by (rule round64_valI [where n = 51 and m = "5515760546423086"]) (simp_all add: rne_eqI)

lemma round64_value_27 [round64_values]: "round64 (4140129523589314666239323874595 / 10141204801825835211973625643008) = 1838586848807695 / 4503599627370496"
  by (rule round64_valI [where n = 54 and m = "7354347395230780"]) (simp_all add: rne_eqI)

lemma round64_value_28 [round64_values]: "round64 (13521606402434445167932911275185 / 40564819207303340847894502572032) = 6004799503160661 / 18014398509481984"
  by (rule round64_valI [where n = 54 and m = "6004799503160661"]) (simp_all add: rne_eqI)

lemma round64_value_29 [round64_values]: "round64 (- (6760803201217221664673031233745 / 40564819207303340847894502572032)) = - (1501199875790165 / 9007199254740992)"
  by (rule round64_valI [where n = 55 and m = "- 6004799503160660"]) (simp_all add: rne_eqI)

lemma round64_value_30 [round64_values]: "round64 (18014398509481987 / 18014398509481984) = 4503599627370497 / 4503599627370496"
  by (rule round64_valI [where n = 52 and m = "4503599627370497"]) (simp_all add: rne_eqI)

lemma round64_value_31 [round64_values]: "round64 (- (1 / 2)) = - (1 / 2)"
  by (rule round64_valI [where n = 53 and m = "- 4503599627370496"]) (simp_all add: rne_eqI)

lemma round64_value_32 [round64_values]: "round64 (4140129523589314666239323874595 / 20282409603651670423947251286016) = 1838586848807695 / 9007199254740992"
  by (rule round64_valI [where n = 55 and m = "7354347395230780"]) (simp_all add: rne_eqI)

lemma round64_value_33 [round64_values]: "round64 (13521606402434445167932911275185 / 81129638414606681695789005144064) = 6004799503160661 / 36028797018963968"
  by (rule round64_valI [where n = 55 and m = "6004799503160661"]) (simp_all add: rne_eqI)

lemma round64_value_34 [round64_values]: "round64 (- (6760803201217221664673031233745 / 81129638414606681695789005144064)) = - (1501199875790165 / 18014398509481984)"
  by (rule round64_valI [where n = 56 and m = "- 6004799503160660"]) (simp_all add: rne_eqI)

lemma round64_value_35 [round64_values]: "round64 (6004799503160661 / 36028797018963968) = 6004799503160661 / 36028797018963968"
  by (rule round64_valI [where n = 55 and m = "6004799503160661"]) (simp_all add: rne_eqI)

lemma round64_value_36 [round64_values]: "round64 (- (1501199875790165 / 18014398509481984)) = - (1501199875790165 / 18014398509481984)"
  by (rule round64_valI [where n = 56 and m = "- 6004799503160660"]) (simp_all add: rne_eqI)

lemma round64_value_37 [round64_values]: "round64 (3677173697615391 / 2251799813685248) = 3677173697615391 / 2251799813685248"
  by (rule round64_valI [where n = 52 and m = "7354347395230782"]) (simp_all add: rne_eqI)

lemma round64_value_38 [round64_values]: "round64 (5520172698119086722052390429515 / 20282409603651670423947251286016) = 4902898263487187 / 18014398509481984"
  by (rule round64_valI [where n = 54 and m = "4902898263487187"]) (simp_all add: rne_eqI)

lemma round64_value_39 [round64_values]: "round64 (36057617073158522899270228477421 / 162259276829213363391578010288128) = 2001599834386887 / 9007199254740992"
  by (rule round64_valI [where n = 55 and m = "8006399337547548"]) (simp_all add: rne_eqI)

lemma round64_value_40 [round64_values]: "round64 (- (18028808536579258998185982495117 / 162259276829213363391578010288128)) = - (8006399337547547 / 72057594037927936)"
  by (rule round64_valI [where n = 56 and m = "- 8006399337547547"]) (simp_all add: rne_eqI)

lemma round64_value_41 [round64_values]: "round64 (2001599834386887 / 9007199254740992) = 2001599834386887 / 9007199254740992"
  by (rule round64_valI [where n = 55 and m = "8006399337547548"]) (simp_all add: rne_eqI)

lemma round64_value_42 [round64_values]: "round64 (- (8006399337547547 / 72057594037927936)) = - (8006399337547547 / 72057594037927936)"
  by (rule round64_valI [where n = 56 and m = "- 8006399337547547"]) (simp_all add: rne_eqI)

lemma round64_value_43 [round64_values]: "round64 (15011998757901655 / 9007199254740992) = 1876499844737707 / 1125899906842624"
  by (rule round64_valI [where n = 52 and m = "7505999378950828"]) (simp_all add: rne_tie)

lemma round64_value_44 [round64_values]: "round64 (3002399751580331 / 36028797018963968) = 3002399751580331 / 36028797018963968"
  by (rule round64_valI [where n = 56 and m = "6004799503160662"]) (simp_all add: rne_eqI)

lemma round64_value_45 [round64_values]: "round64 (1 / 36028797018963968) = 1 / 36028797018963968"
  by (rule round64_valI [where n = 107 and m = "4503599627370496"]) (simp_all add: rne_eqI)

lemma round64_value_46 [round64_values]: "round64 (8006399337547549 / 72057594037927936) = 8006399337547549 / 72057594037927936"
  by (rule round64_valI [where n = 56 and m = "8006399337547549"]) (simp_all add: rne_eqI)

lemma round64_value_47 [round64_values]: "round64 (1 / 2) = 1 / 2"
  by (rule round64_valI [where n = 53 and m = "4503599627370496"]) (simp_all add: rne_eqI)

lemma round64_value_48 [round64_values]: "round64 (- 1) = - 1"
  by (rule round64_valI [where n = 52 and m = "- 4503599627370496"]) (simp_all add: rne_eqI)

lemma round64_value_49 [round64_values]: "round64 (17565081966723813738737148597739 / 10141204801825835211973625643008) = 3900231685776981 / 2251799813685248"
  by (rule round64_valI [where n = 52 and m = "7800463371553962"]) (simp_all add: rne_eqI)

lemma round64_value_50 [round64_values]: "round64 (1648431872091733 / 2251799813685248) = 1648431872091733 / 2251799813685248"
  by (rule round64_valI [where n = 53 and m = "6593727488366932"]) (simp_all add: rne_eqI)

lemma round64_value_51 [round64_values]: "round64 (1648431872091733 / 13510798882111488) = 8791636651155909 / 72057594037927936"
  by (rule round64_valI [where n = 56 and m = "8791636651155909"]) (simp_all add: rne_eqI)

lemma round64_value_52 [round64_values]: "round64 (4503599627370496 / 6369051672525773) = 1592262918131443 / 2251799813685248"
  by (rule round64_valI [where n = 53 and m = "6369051672525772"]) (simp_all add: rne_eqI)

lemma round64_value_53 [round64_values]: "round64 (- (4503599627370496 / 6369051672525773)) = - (1592262918131443 / 2251799813685248)"
  by (rule round64_valI [where n = 53 and m = "- 6369051672525772"]) (simp_all add: rne_eqI)

lemma round64_value_54 [round64_values]: "round64 (24246281289466473270578631457587 / 81129638414606681695789005144064) = 2691877974910381 / 9007199254740992"
  by (rule round64_valI [where n = 54 and m = "5383755949820762"]) (simp_all add: rne_eqI)

lemma round64_value_55 [round64_values]: "round64 (4286177479584562556207903209783 / 20282409603651670423947251286016) = 7613780680743365 / 36028797018963968"
  by (rule round64_valI [where n = 55 and m = "7613780680743365"]) (simp_all add: rne_eqI)

lemma round64_value_56 [round64_values]: "round64 (- (4286177479584562556207903209783 / 20282409603651670423947251286016)) = - (7613780680743365 / 36028797018963968)"
  by (rule round64_valI [where n = 55 and m = "- 7613780680743365"]) (simp_all add: rne_eqI)

lemma round64_value_57 [round64_values]: "round64 (28415016338220603 / 36028797018963968) = 7103754084555151 / 9007199254740992"
  by (rule round64_valI [where n = 53 and m = "7103754084555151"]) (simp_all add: rne_eqI)

lemma round64_value_58 [round64_values]: "round64 (- (28415016338220603 / 36028797018963968)) = - (7103754084555151 / 9007199254740992)"
  by (rule round64_valI [where n = 53 and m = "- 7103754084555151"]) (simp_all add: rne_eqI)

lemma round64_value_59 [round64_values]: "round64 (8791636651155909 / 72057594037927936) = 8791636651155909 / 72057594037927936"
  by (rule round64_valI [where n = 56 and m = "8791636651155909"]) (simp_all add: rne_eqI)

lemma round64_value_60 [round64_values]: "round64 (24246281289466473270578631457587 / 162259276829213363391578010288128) = 2691877974910381 / 18014398509481984"
  by (rule round64_valI [where n = 55 and m = "5383755949820762"]) (simp_all add: rne_eqI)

lemma round64_value_61 [round64_values]: "round64 (4286177479584562556207903209783 / 40564819207303340847894502572032) = 7613780680743365 / 72057594037927936"
  by (rule round64_valI [where n = 56 and m = "7613780680743365"]) (simp_all add: rne_eqI)

lemma round64_value_62 [round64_values]: "round64 (- (4286177479584562556207903209783 / 40564819207303340847894502572032)) = - (7613780680743365 / 72057594037927936)"
  by (rule round64_valI [where n = 56 and m = "- 7613780680743365"]) (simp_all add: rne_eqI)

lemma round64_value_63 [round64_values]: "round64 (7613780680743365 / 72057594037927936) = 7613780680743365 / 72057594037927936"
  by (rule round64_valI [where n = 56 and m = "7613780680743365"]) (simp_all add: rne_eqI)

lemma round64_value_64 [round64_values]: "round64 (- (7613780680743365 / 72057594037927936)) = - (7613780680743365 / 72057594037927936)"
  by (rule round64_valI [where n = 56 and m = "- 7613780680743365"]) (simp_all add: rne_eqI)

lemma round64_value_65 [round64_values]: "round64 (32328375052621967291317058995419 / 162259276829213363391578010288128) = 7178341266427683 / 36028797018963968"
  by (rule round64_valI [where n = 55 and m = "7178341266427683"]) (simp_all add: rne_eqI)

lemma round64_value_66 [round64_values]: "round64 (11429806612225500680642047936569 / 81129638414606681695789005144064) = 1268963446790561 / 9007199254740992"
  by (rule round64_valI [where n = 55 and m = "5075853787162244"]) (simp_all add: rne_eqI)

lemma round64_value_67 [round64_values]: "round64 (- (11429806612225500680642047936569 / 81129638414606681695789005144064)) = - (1268963446790561 / 9007199254740992)"
  by (rule round64_valI [where n = 55 and m = "- 5075853787162244"]) (simp_all add: rne_eqI)

lemma round64_value_68 [round64_values]: "round64 (1268963446790561 / 9007199254740992) = 1268963446790561 / 9007199254740992"
  by (rule round64_valI [where n = 55 and m = "5075853787162244"]) (simp_all add: rne_eqI)

lemma round64_value_69 [round64_values]: "round64 (- (1268963446790561 / 9007199254740992)) = - (1268963446790561 / 9007199254740992)"
  by (rule round64_valI [where n = 55 and m = "- 5075853787162244"]) (simp_all add: rne_eqI)

lemma round64_value_70 [round64_values]: "round64 (7103754084555151 / 9007199254740992) = 7103754084555151 / 9007199254740992"
  by (rule round64_valI [where n = 53 and m = "7103754084555151"]) (simp_all add: rne_eqI)

lemma round64_value_71 [round64_values]: "round64 (- (7103754084555151 / 9007199254740992)) = - (7103754084555151 / 9007199254740992)"
  by (rule round64_valI [where n = 53 and m = "- 7103754084555151"]) (simp_all add: rne_eqI)

lemma round64_value_72 [round64_values]: "round64 (28415016338220603 / 72057594037927936) = 7103754084555151 / 18014398509481984"
  by (rule round64_valI [where n = 54 and m = "7103754084555151"]) (simp_all add: rne_eqI)

lemma round64_value_73 [round64_values]: "round64 (- (28415016338220603 / 72057594037927936)) = - (7103754084555151 / 18014398509481984)"
  by (rule round64_valI [where n = 54 and m = "- 7103754084555151"]) (simp_all add: rne_eqI)

lemma round64_value_74 [round64_values]: "round64 (7103754084555151 / 18014398509481984) = 7103754084555151 / 18014398509481984"
  by (rule round64_valI [where n = 54 and m = "7103754084555151"]) (simp_all add: rne_eqI)

lemma round64_value_75 [round64_values]: "round64 (- (7103754084555151 / 18014398509481984)) = - (7103754084555151 / 18014398509481984)"
  by (rule round64_valI [where n = 54 and m = "- 7103754084555151"]) (simp_all add: rne_eqI)

lemma round64_value_76 [round64_values]: "round64 (2917395318882295 / 4503599627370496) = 2917395318882295 / 4503599627370496"
  by (rule round64_valI [where n = 53 and m = "5834790637764590"]) (simp_all add: rne_eqI)

lemma round64_value_77 [round64_values]: "round64 (- (2917395318882295 / 4503599627370496)) = - (2917395318882295 / 4503599627370496)"
  by (rule round64_valI [where n = 53 and m = "- 5834790637764590"]) (simp_all add: rne_eqI)

lemma round64_value_78 [round64_values]: "round64 (8511195446636327728968064467025 / 20282409603651670423947251286016) = 7559460121552355 / 18014398509481984"
  by (rule round64_valI [where n = 54 and m = "7559460121552355"]) (simp_all add: rne_eqI)

lemma round64_value_79 [round64_values]: "round64 (7559460121552355 / 18014398509481984) = 7559460121552355 / 18014398509481984"
  by (rule round64_valI [where n = 54 and m = "7559460121552355"]) (simp_all add: rne_eqI)

lemma round64_value_80 [round64_values]: "round64 (7559460121552355 / 9007199254740992) = 7559460121552355 / 9007199254740992"
  by (rule round64_valI [where n = 53 and m = "7559460121552355"]) (simp_all add: rne_eqI)

lemma round64_value_81 [round64_values]: "round64 (5689258831321083037353351644623 / 5070602400912917605986812821504) = 5053076918067741 / 4503599627370496"
  by (rule round64_valI [where n = 52 and m = "5053076918067741"]) (simp_all add: rne_eqI)

lemma round64_value_82 [round64_values]: "round64 (80849230689083845 / 72057594037927936) = 1263269229516935 / 1125899906842624"
  by (rule round64_valI [where n = 52 and m = "5053076918067740"]) (simp_all add: rne_eqI)

lemma round64_value_83 [round64_values]: "round64 (1 / 4503599627370496) = 1 / 4503599627370496"
  by (rule round64_valI [where n = 104 and m = "4503599627370496"]) (simp_all add: rne_eqI)

lemma round64_value_84 [round64_values]: "round64 (1 / 27021597764222976) = 6004799503160661 / 162259276829213363391578010288128"
  by (rule round64_valI [where n = 107 and m = "6004799503160661"]) (simp_all add: rne_eqI)

lemma round64_value_85 [round64_values]: "round64 (2917395318882295 / 4125820026767122) = 6369051672525773 / 9007199254740992"
  by (rule round64_valI [where n = 53 and m = "6369051672525773"]) (simp_all add: rne_eqI)

lemma round64_value_86 [round64_values]: "round64 (- (2917395318882295 / 4125820026767122)) = - (6369051672525773 / 9007199254740992)"
  by (rule round64_valI [where n = 53 and m = "- 6369051672525773"]) (simp_all add: rne_eqI)

lemma round64_value_87 [round64_values]: "round64 (16560518094357261422837568709923 / 182687704666362864775460604089535377456991567872) = 7354347395230781 / 81129638414606681695789005144064"
  by (rule round64_valI [where n = 106 and m = "7354347395230781"]) (simp_all add: rne_eqI)

lemma round64_value_88 [round64_values]: "round64 (46840218577930167846948505418713 / 730750818665451459101842416358141509827966271488) = 1300077228592327 / 20282409603651670423947251286016"
  by (rule round64_valI [where n = 106 and m = "5200308914369308"]) (simp_all add: rne_eqI)

lemma round64_value_89 [round64_values]: "round64 (- (46840218577930167846948505418713 / 730750818665451459101842416358141509827966271488)) = - (1300077228592327 / 20282409603651670423947251286016)"
  by (rule round64_valI [where n = 106 and m = "- 5200308914369308"]) (simp_all add: rne_eqI)

lemma round64_value_90 [round64_values]: "round64 (15996232124067107188842782520121 / 20282409603651670423947251286016) = 3551877042277575 / 4503599627370496"
  by (rule round64_valI [where n = 53 and m = "7103754084555150"]) (simp_all add: rne_eqI)

lemma round64_value_91 [round64_values]: "round64 (- (15996232124067107188842782520121 / 20282409603651670423947251286016)) = - (3551877042277575 / 4503599627370496)"
  by (rule round64_valI [where n = 53 and m = "- 7103754084555150"]) (simp_all add: rne_eqI)

lemma round64_value_92 [round64_values]: "round64 (19797005773061279556775804491093 / 162259276829213363391578010288128) = 1098954581394489 / 9007199254740992"
  by (rule round64_valI [where n = 56 and m = "8791636651155912"]) (simp_all add: rne_eqI)

lemma round64_value_93 [round64_values]: "round64 (16560518094357261422837568709923 / 365375409332725729550921208179070754913983135744) = 7354347395230781 / 162259276829213363391578010288128"
  by (rule round64_valI [where n = 107 and m = "7354347395230781"]) (simp_all add: rne_eqI)

lemma round64_value_94 [round64_values]: "round64 (46840218577930167846948505418713 / 1461501637330902918203684832716283019655932542976) = 1300077228592327 / 40564819207303340847894502572032"
  by (rule round64_valI [where n = 107 and m = "5200308914369308"]) (simp_all add: rne_eqI)

lemma round64_value_95 [round64_values]: "round64 (- (46840218577930167846948505418713 / 1461501637330902918203684832716283019655932542976)) = - (1300077228592327 / 40564819207303340847894502572032)"
  by (rule round64_valI [where n = 107 and m = "- 5200308914369308"]) (simp_all add: rne_eqI)

lemma round64_value_96 [round64_values]: "round64 (4286177479584563798054422187207 / 40564819207303340847894502572032) = 7613780680743367 / 72057594037927936"
  by (rule round64_valI [where n = 56 and m = "7613780680743367"]) (simp_all add: rne_eqI)

lemma round64_value_97 [round64_values]: "round64 (- (4286177479584563798054422187207 / 40564819207303340847894502572032)) = - (7613780680743367 / 72057594037927936)"
  by (rule round64_valI [where n = 56 and m = "- 7613780680743367"]) (simp_all add: rne_eqI)

lemma round64_value_98 [round64_values]: "round64 (22080690792476350565383259333451 / 365375409332725729550921208179070754913983135744) = 1225724565871797 / 20282409603651670423947251286016"
  by (rule round64_valI [where n = 106 and m = "4902898263487188"]) (simp_all add: rne_eqI)

lemma round64_value_99 [round64_values]: "round64 (7806703096321695702666696324081 / 182687704666362864775460604089535377456991567872) = 3466872609579539 / 81129638414606681695789005144064"
  by (rule round64_valI [where n = 107 and m = "6933745219159078"]) (simp_all add: rne_eqI)

lemma round64_value_100 [round64_values]: "round64 (- (7806703096321695702666696324081 / 182687704666362864775460604089535377456991567872)) = - (3466872609579539 / 81129638414606681695789005144064)"
  by (rule round64_valI [where n = 107 and m = "- 6933745219159078"]) (simp_all add: rne_eqI)

lemma round64_value_101 [round64_values]: "round64 (11429806612225504962678334956051 / 81129638414606681695789005144064) = 2537926893581123 / 18014398509481984"
  by (rule round64_valI [where n = 55 and m = "5075853787162246"]) (simp_all add: rne_eqI)

lemma round64_value_102 [round64_values]: "round64 (- (11429806612225504962678334956051 / 81129638414606681695789005144064)) = - (2537926893581123 / 18014398509481984)"
  by (rule round64_valI [where n = 55 and m = "- 5075853787162246"]) (simp_all add: rne_eqI)

lemma round64_value_103 [round64_values]: "round64 (3551877042277575 / 4503599627370496) = 3551877042277575 / 4503599627370496"
  by (rule round64_valI [where n = 53 and m = "7103754084555150"]) (simp_all add: rne_eqI)

lemma round64_value_104 [round64_values]: "round64 (- (3551877042277575 / 4503599627370496)) = - (3551877042277575 / 4503599627370496)"
  by (rule round64_valI [where n = 53 and m = "- 7103754084555150"]) (simp_all add: rne_eqI)

lemma round64_value_105 [round64_values]: "round64 (1 / 10) = 3602879701896397 / 36028797018963968"
  by (rule round64_valI [where n = 56 and m = "7205759403792794"]) (simp_all add: rne_eqI)

lemma round64_value_106 [round64_values]: "round64 (1 / 5) = 3602879701896397 / 18014398509481984"
  by (rule round64_valI [where n = 55 and m = "7205759403792794"]) (simp_all add: rne_eqI)

lemma round64_value_107 [round64_values]: "round64 (12980742146337070512478121581609 / 649037107316853453566312041152512) = 1441151880758559 / 72057594037927936"
  by (rule round64_valI [where n = 58 and m = "5764607523034236"]) (simp_all add: rne_eqI)

lemma round64_value_108 [round64_values]: "round64 (1441151880758559 / 72057594037927936) = 1441151880758559 / 72057594037927936"
  by (rule round64_valI [where n = 58 and m = "5764607523034236"]) (simp_all add: rne_eqI)

lemma round64_value_109 [round64_values]: "round64 (3602879701896397 / 36028797018963968) = 3602879701896397 / 36028797018963968"
  by (rule round64_valI [where n = 56 and m = "7205759403792794"]) (simp_all add: rne_eqI)

lemma round64_value_110 [round64_values]: "round64 (3602879701896397 / 18014398509481984) = 3602879701896397 / 18014398509481984"
  by (rule round64_valI [where n = 55 and m = "7205759403792794"]) (simp_all add: rne_eqI)

lemma round64_value_111 [round64_values]: "round64 (15852670688344147 / 72057594037927936) = 3963167672086037 / 18014398509481984"
  by (rule round64_valI [where n = 55 and m = "7926335344172074"]) (simp_all add: rne_tie)

lemma round64_value_112 [round64_values]: "round64 (11529215046068471 / 36028797018963968) = 1441151880758559 / 4503599627370496"
  by (rule round64_valI [where n = 54 and m = "5764607523034236"]) (simp_all add: rne_tie)

lemma round64_value_113 [round64_values]: "round64 (1441151880758559 / 4503599627370496) = 1441151880758559 / 4503599627370496"
  by (rule round64_valI [where n = 54 and m = "5764607523034236"]) (simp_all add: rne_eqI)

lemma round64_value_114 [round64_values]: "round64 (8646911284551353 / 72057594037927936) = 8646911284551353 / 72057594037927936"
  by (rule round64_valI [where n = 56 and m = "8646911284551353"]) (simp_all add: rne_eqI)

lemma round64_value_115 [round64_values]: "round64 (23058430092136941 / 72057594037927936) = 5764607523034235 / 18014398509481984"
  by (rule round64_valI [where n = 54 and m = "5764607523034235"]) (simp_all add: rne_eqI)

lemma round64_value_116 [round64_values]: "round64 (5764607523034235 / 18014398509481984) = 5764607523034235 / 18014398509481984"
  by (rule round64_valI [where n = 54 and m = "5764607523034235"]) (simp_all add: rne_eqI)

lemma round64_value_117 [round64_values]: "round64 (21617278211378381 / 18014398509481984) = 5404319552844595 / 4503599627370496"
  by (rule round64_valI [where n = 52 and m = "5404319552844595"]) (simp_all add: rne_eqI)

lemma round64_value_118 [round64_values]: "round64 (5404319552844595 / 4503599627370496) = 5404319552844595 / 4503599627370496"
  by (rule round64_valI [where n = 52 and m = "5404319552844595"]) (simp_all add: rne_eqI)

lemma round64_value_119 [round64_values]: "round64 (85027960964754961 / 72057594037927936) = 5314247560297185 / 4503599627370496"
  by (rule round64_valI [where n = 52 and m = "5314247560297185"]) (simp_all add: rne_eqI)

lemma round64_value_120 [round64_values]: "round64 (5314247560297185 / 4503599627370496) = 5314247560297185 / 4503599627370496"
  by (rule round64_valI [where n = 52 and m = "5314247560297185"]) (simp_all add: rne_eqI)

lemma round64_value_121 [round64_values]: "round64 (1 / 4) = 1 / 4"
  by (rule round64_valI [where n = 54 and m = "4503599627370496"]) (simp_all add: rne_eqI)

lemma round64_value_122 [round64_values]: "round64 (1 / 16) = 1 / 16"
  by (rule round64_valI [where n = 56 and m = "4503599627370496"]) (simp_all add: rne_eqI)

lemma round64_value_123 [round64_values]: "round64 (15 / 16) = 15 / 16"
  by (rule round64_valI [where n = 53 and m = "8444249301319680"]) (simp_all add: rne_eqI)

lemma sqrt64_value_1 [round64_values]: "sqrt64 (3002399751580331 / 1125899906842624) = 3677173697615391 / 2251799813685248"
  by (rule sqrt64_valI [where n = 52 and m = "7354347395230782"]) (simp_all add: power2_eq_square)

lemma sqrt64_value_2 [round64_values]: "sqrt64 (3 / 2) = 2757880273211543 / 2251799813685248"
  by (rule sqrt64_valI [where n = 52 and m = "5515760546423086"]) (simp_all add: power2_eq_square)

lemma sqrt64_value_3 [round64_values]: "sqrt64 6 = 2757880273211543 / 1125899906842624"
  by (rule sqrt64_valI [where n = 51 and m = "5515760546423086"]) (simp_all add: power2_eq_square)

lemma sqrt64_value_4 [round64_values]: "sqrt64 (6004799503160661 / 9007199254740992) = 3677173697615391 / 4503599627370496"
  by (rule sqrt64_valI [where n = 53 and m = "7354347395230782"]) (simp_all add: power2_eq_square)

lemma sqrt64_value_5 [round64_values]: "sqrt64 2 = 6369051672525773 / 4503599627370496"
  by (rule sqrt64_valI [where n = 52 and m = "6369051672525773"]) (simp_all add: power2_eq_square)

lemma sqrt64_value_6 [round64_values]: "sqrt64 (7559460121552355 / 9007199254740992) = 2062910013383561 / 2251799813685248"
  by (rule sqrt64_valI [where n = 53 and m = "8251640053534244"]) (simp_all add: power2_eq_square)

subsection \<open>The rounded tensor operations\<close>

lemma entry_radd [simp]: "entry (radd rnd A B) i j = rnd (entry A i j + entry B i j)"
  by (simp add: radd_def)

lemma entry_rscale [simp]: "entry (rscale rnd c A) i j = rnd (c * entry A i j)"
  by (simp add: rscale_def)

lemma entry_rdot [simp]:
  "entry (rdot rnd ks A B) i j =
     foldl (\<lambda>acc k. rnd (acc + rnd (entry A i k * entry B k j))) 0 ks"
  by (simp add: rdot_def)

lemma entry_rsub [simp]: "entry (rsub rnd A B) i j = rnd (entry A i j - entry B i j)"
  by (simp add: rsub_def)

lemma entry_rdiv [simp]: "entry (rdiv rnd A c) i j = rnd (entry A i j / c)"
  by (simp add: rdiv_def)

lemma entry_rsym [simp]: "entry (rsym rnd A) i j = rnd (0.5 * rnd (entry A i j + entry A j i))"
  by (simp add: rsym_def)

lemma rsub_diag3:
  "rsub round64 (diag3 a b c) (diag3 a' b' c')
     = diag3 (round64 (a - a')) (round64 (b - b')) (round64 (c - c'))"
  by (rule tensor_eqI) simp

lemma radd_diag3:
  "radd round64 (diag3 a b c) (diag3 a' b' c')
     = diag3 (round64 (a + a')) (round64 (b + b')) (round64 (c + c'))"
  by (rule tensor_eqI) simp

lemma rscale_diag3:
  "rscale round64 k (diag3 a b c) = diag3 (round64 (k * a)) (round64 (k * b)) (round64 (k * c))"
  by (rule tensor_eqI) simp

lemma rdiv_diag3:
  "rdiv round64 (diag3 a b c) k = diag3 (round64 (a / k)) (round64 (b / k)) (round64 (c / k))"
  by (rule tensor_eqI) simp

lemma rsym_diag3:
  "rsym round64 (diag3 a b c)
     = diag3 (round64 (round64 (a + a) / 2)) (round64 (round64 (b + b) / 2))
         (round64 (round64 (c + c) / 2))"
  by (rule tensor_eqI) simp

lemma rtr3_diag3:
  "rtr3 round64 (diag3 a b c) = round64 (round64 (round64 a + b) + c)"
  by (simp add: rtr3_def rtr_def)

text \<open>
  Transposition commutes with the rounded operations.
\<close>

lemma transpose_t_rounded:
  "transpose_t (radd rnd A B) = radd rnd (transpose_t A) (transpose_t B)"
  "transpose_t (rsub rnd A B) = rsub rnd (transpose_t A) (transpose_t B)"
  "transpose_t (rscale rnd c A) = rscale rnd c (transpose_t A)"
  "transpose_t (rdiv rnd A c) = rdiv rnd (transpose_t A) c"
  "transpose_t (rsym rnd A) = rsym rnd A"
  by (rule tensor_eqI, simp add: add.commute)+

lemma transpose_t_rdev3: "transpose_t (rdev3 rnd A) = rdev3 rnd (transpose_t A)"
  by (simp add: rdev3_def transpose_t_rounded rtr3_def rtr_def)

text \<open>
  With the identity as rounding the rounded operations are the exact ones.
\<close>

lemma rounded_exact:
  "radd (\<lambda>x. x) A B = A + B"
  "rsub (\<lambda>x. x) A B = A - B"
  "rscale (\<lambda>x. x) c A = c *\<^sub>R A"
  "rsym (\<lambda>x. x) A = sym_t A"
  "rdiv (\<lambda>x. x) C (norm_t C) = normalize_t C"
  by (rule tensor_eqI, simp)+

lemma rtr3_exact: "rtr3 (\<lambda>x. x) A = tr A"
  by (simp add: rtr3_def rtr_def tr_def sum3)

lemma rdev3_exact: "rdev3 (\<lambda>x. x) A = dev A"
  by (simp add: rdev3_def dev_def rounded_exact rtr3_exact)

lemma rnorm3_exact: "rnorm3 (\<lambda>x. x) sqrt A = norm_t A"
  by (simp add: rnorm3_def norm_t_def sum3 power2_eq_square add.assoc)

lemma rdet2_exact: "rdet2 (\<lambda>x. x) A = det2 A"
  by (simp add: rdet2_def det2_def)

lemma rdet3_exact: "rdet3 (\<lambda>x. x) A = det3 A"
  by (simp add: rdet3_def det3_def Let_def)

section \<open>The J2 model\<close>

text \<open>
  The two branches of the evaluation, in terms of the quantities of the predictor.
\<close>

lemma J2_call_elastic:
  assumes "J2_phi mat state du_dX \<le> 0"
  shows "J2_call mat state du_dX =
    (J2_s mat state du_dX + J2_p mat state du_dX *\<^sub>R Identity, state)"
  using assms
  by (simp add: J2_call_def J2_phi_def J2_eta_def J2_s_def J2_p_def J2_el_strain_def
      J2_K_def J2_G_def Let_def)

lemma J2_call_plastic:
  assumes "J2_phi mat state du_dX > 0"
  shows "J2_call mat state du_dX =
    (J2_s mat state du_dX
       - (sqrt 6 * J2_G mat * J2_inc mat state du_dX) *\<^sub>R normalize_t (J2_eta mat state du_dX)
       + J2_p mat state du_dX *\<^sub>R Identity,
     \<lparr>beta = beta state
        + (sqrt (2 / 3) * Hk mat * J2_inc mat state du_dX) *\<^sub>R normalize_t (J2_eta mat state du_dX),
      plastic_strain = plastic_strain state
        + (sqrt (3 / 2) * J2_inc mat state du_dX) *\<^sub>R normalize_t (J2_eta mat state du_dX),
      accumulated_plastic_strain = accumulated_plastic_strain state + J2_inc mat state du_dX\<rparr>)"
  using assms
  by (simp add: J2_call_def J2_phi_def J2_eta_def J2_s_def J2_p_def J2_el_strain_def
      J2_K_def J2_G_def J2_inc_def Let_def)

lemma J2_eta_stretch:
  "J2_eta mat_hardening State_zero (stretch a) = stretch (2 * a)"
  by (simp add: J2_eta_def J2_s_def J2_G_def J2_el_strain_def mat_hardening_def State_zero_def
      stretch_def sym_t_diag3 dev_diag3 scaleR_diag3 zero_diag3 diff_diag3)

lemma J2_phi_stretch: "J2_phi mat_hardening State_zero (stretch a) = 6 * \<bar>a\<bar> - 1"
proof -
  have "sqrt (3 / 2) * (sqrt 6 * \<bar>2 * a\<bar>) = 6 * \<bar>a\<bar>"
    by (simp add: sqrt6_eq abs_mult)
  then show ?thesis
    by (simp add: J2_phi_def J2_eta_stretch norm_t_stretch)
      (simp add: mat_hardening_def State_zero_def)
qed

text \<open>
  Claim C1. If the yield function of the elastic predictor is not positive, one
  evaluation of the J2 material returns the committed state as it was (back-stress,
  plastic strain and accumulated plastic strain are not assigned) and the stress
  \<open>s + p I\<close> of the predictor.
\<close>

theorem J2_elastic_step:
  assumes "J2_phi mat state du_dX \<le> 0"
  shows "snd (J2_call mat state du_dX) = state \<and>
    fst (J2_call mat state du_dX) = J2_s mat state du_dX + J2_p mat state du_dX *\<^sub>R Identity"
  using assms by (simp add: J2_call_elastic)

text \<open>
  The stretch \<open>diag (1/3, -1/6, -1/6)\<close> puts the hardening material exactly on the
  yield surface of the zero state, \<open>phi = 0\<close>.
\<close>

theorem J2_elastic_step_witness:
  "J2_phi mat_hardening State_zero (stretch (1 / 6)) \<le> 0
   \<and> snd (J2_call mat_hardening State_zero (stretch (1 / 6))) = State_zero
   \<and> fst (J2_call mat_hardening State_zero (stretch (1 / 6))) =
       J2_s mat_hardening State_zero (stretch (1 / 6))
         + J2_p mat_hardening State_zero (stretch (1 / 6)) *\<^sub>R Identity"
proof -
  have h: "J2_phi mat_hardening State_zero (stretch (1 / 6)) \<le> 0"
    by (simp add: J2_phi_stretch)
  show ?thesis using h J2_elastic_step [OF h] by simp
qed

text \<open>
  Claim C2. If the yield function is positive, the plastic increment is
  \<open>phi / (3 G + Hk + Hi)\<close>, the accumulated plastic strain grows by that
  increment, and the stress returned is the trial deviator reduced by
  \<open>sqrt 6 * G * increment * normalize eta\<close> plus \<open>p I\<close>. When
  \<open>phi = 2 (3 G + Hk + Hi)\<close> the accumulated plastic strain grows by 2.
\<close>

theorem J2_radial_return:
  assumes "J2_phi mat state du_dX > 0"
  shows "accumulated_plastic_strain (snd (J2_call mat state du_dX)) =
      accumulated_plastic_strain state
        + J2_phi mat state du_dX / (3 * J2_G mat + Hk mat + Hi mat)
    \<and> fst (J2_call mat state du_dX) =
      J2_s mat state du_dX
        - (sqrt 6 * J2_G mat * (J2_phi mat state du_dX / (3 * J2_G mat + Hk mat + Hi mat)))
            *\<^sub>R normalize_t (J2_eta mat state du_dX)
        + J2_p mat state du_dX *\<^sub>R Identity
    \<and> (J2_phi mat state du_dX = 2 * (3 * J2_G mat + Hk mat + Hi mat) \<longrightarrow>
        accumulated_plastic_strain (snd (J2_call mat state du_dX)) =
          accumulated_plastic_strain state + 2)"
proof -
  let ?D = "3 * J2_G mat + Hk mat + Hi mat"
  have two: "J2_phi mat state du_dX / ?D = 2" if eq: "J2_phi mat state du_dX = 2 * ?D"
  proof -
    have cancel: "2 * d / d = 2" if "d \<noteq> 0" for d :: real
      using that by simp
    from assms eq have "?D \<noteq> 0" by auto
    then have "2 * ?D / ?D = 2" by (rule cancel)
    then show ?thesis by (simp only: eq)
  qed
  have call: "J2_call mat state du_dX = (J2_s mat state du_dX
       - (sqrt 6 * J2_G mat * J2_inc mat state du_dX) *\<^sub>R normalize_t (J2_eta mat state du_dX)
       + J2_p mat state du_dX *\<^sub>R Identity,
     \<lparr>beta = beta state
        + (sqrt (2 / 3) * Hk mat * J2_inc mat state du_dX) *\<^sub>R normalize_t (J2_eta mat state du_dX),
      plastic_strain = plastic_strain state
        + (sqrt (3 / 2) * J2_inc mat state du_dX) *\<^sub>R normalize_t (J2_eta mat state du_dX),
      accumulated_plastic_strain = accumulated_plastic_strain state + J2_inc mat state du_dX\<rparr>)"
    using assms by (rule J2_call_plastic)
  show ?thesis
    unfolding call using two by (simp add: J2_inc_def)
qed

text \<open>
  For the hardening material \<open>3 G + Hk + Hi = 6\<close>; the stretch
  \<open>diag (13/3, -13/6, -13/6)\<close> gives \<open>phi = 12\<close> from the zero state.
\<close>

theorem J2_radial_return_witness:
  "J2_phi mat_hardening State_zero (stretch (13 / 6)) > 0
   \<and> J2_phi mat_hardening State_zero (stretch (13 / 6))
       = 2 * (3 * J2_G mat_hardening + Hk mat_hardening + Hi mat_hardening)
   \<and> accumulated_plastic_strain (snd (J2_call mat_hardening State_zero (stretch (13 / 6)))) = 2"
proof -
  have h: "J2_phi mat_hardening State_zero (stretch (13 / 6)) > 0"
    by (simp add: J2_phi_stretch)
  have e: "J2_phi mat_hardening State_zero (stretch (13 / 6))
       = 2 * (3 * J2_G mat_hardening + Hk mat_hardening + Hi mat_hardening)"
    by (simp add: J2_phi_stretch) (simp add: J2_G_def mat_hardening_def)
  have z: "accumulated_plastic_strain State_zero = 0"
    by (simp add: State_zero_def)
  show ?thesis using h e z J2_radial_return [OF h] by simp
qed

subsection \<open>J2 in binary64 arithmetic\<close>

text \<open>
  The two branches of the rounded evaluation, and the exact evaluation as the instance
  without rounding.
\<close>

lemma J2_call_rounded_elastic:
  assumes "J2_phi_rounded rnd sq mat state du_dX \<le> 0"
  shows "J2_call_rounded rnd sq mat state du_dX =
    (radd rnd (J2_s_rounded rnd mat state du_dX)
       (rscale rnd (J2_p_rounded rnd mat state du_dX) Identity), state)"
  using assms
  by (simp add: J2_call_rounded_def J2_phi_rounded_def J2_eta_rounded_def J2_s_rounded_def
      J2_p_rounded_def J2_el_strain_rounded_def J2_K_rounded_def J2_G_rounded_def Let_def)

lemma J2_call_rounded_plastic:
  assumes "J2_phi_rounded rnd sq mat state du_dX > 0"
  shows "J2_call_rounded rnd sq mat state du_dX =
    (radd rnd
       (rsub rnd (J2_s_rounded rnd mat state du_dX)
          (rscale rnd (rnd (rnd (sq 6 * J2_G_rounded rnd mat) * J2_inc_rounded rnd sq mat state du_dX))
             (J2_normal_rounded rnd sq mat state du_dX)))
       (rscale rnd (J2_p_rounded rnd mat state du_dX) Identity),
     \<lparr>beta = radd rnd (beta state)
        (rscale rnd (rnd (rnd (sq (rnd (2 / 3)) * Hk mat) * J2_inc_rounded rnd sq mat state du_dX))
           (J2_normal_rounded rnd sq mat state du_dX)),
      plastic_strain = radd rnd (plastic_strain state)
        (rscale rnd (rnd (sq (rnd (3 / 2)) * J2_inc_rounded rnd sq mat state du_dX))
           (J2_normal_rounded rnd sq mat state du_dX)),
      accumulated_plastic_strain =
        rnd (accumulated_plastic_strain state + J2_inc_rounded rnd sq mat state du_dX)\<rparr>)"
  using assms
  by (simp add: J2_call_rounded_def J2_phi_rounded_def J2_eta_rounded_def J2_s_rounded_def
      J2_p_rounded_def J2_el_strain_rounded_def J2_K_rounded_def J2_G_rounded_def
      J2_inc_rounded_def J2_normal_rounded_def Let_def)

lemma J2_call_rounded_exact:
  "J2_call_rounded (\<lambda>x. x) sqrt mat state du_dX = J2_call mat state du_dX"
  by (simp add: J2_call_rounded_def J2_call_def Let_def rounded_exact rtr3_exact rdev3_exact
      rnorm3_exact)

text \<open>
  The evaluations of the hardening material at the two example gradients.
\<close>

lemma zero_phi: "J2_phi_rounded round64 sqrt64 mat_hardening State_zero 0 = - 1"
  by (simp add: J2_phi_rounded_def J2_eta_rounded_def J2_s_rounded_def J2_el_strain_rounded_def
      J2_G_rounded_def mat_hardening_def State_zero_def zero_diag3 Identity_diag3 rsub_diag3
      rscale_diag3 rsym_diag3 rtr3_diag3 rdev3_def rnorm3_def round64_values)

lemma uniaxial_phi:
  "J2_phi_rounded round64 sqrt64 mat_hardening State_zero gradient_uniaxial = 4503599627370495 / 2 ^ 52"
  unfolding gradient_uniaxial_def
  by (simp add: J2_phi_rounded_def J2_eta_rounded_def J2_s_rounded_def J2_el_strain_rounded_def
      J2_G_rounded_def mat_hardening_def State_zero_def zero_diag3 Identity_diag3 rsub_diag3
      rscale_diag3 rsym_diag3 rtr3_diag3 rdev3_def rnorm3_def round64_values)

lemma shear_phi:
  "J2_phi_rounded round64 sqrt64 mat_hardening State_shear gradient_shear = 1 / 2 ^ 52"
  unfolding gradient_shear_def State_shear_def
  by (simp add: J2_phi_rounded_def J2_eta_rounded_def J2_s_rounded_def J2_el_strain_rounded_def
      J2_G_rounded_def mat_hardening_def State_zero_def zero_diag3 Identity_diag3 rsub_diag3
      rscale_diag3 rsym_diag3 rtr3_diag3 rdev3_def rnorm3_def round64_values)

lemma uniaxial_first:
  "J2_call_rounded round64 sqrt64 mat_hardening State_zero gradient_uniaxial =
     (diag3 (1876499844737707 / 2 ^ 50) (1501199875790165 / 2 ^ 53) (1501199875790165 / 2 ^ 53),
      State_uniaxial)"
  unfolding gradient_uniaxial_def State_uniaxial_def
  by (simp add: J2_call_rounded_def Let_def mat_hardening_def State_zero_def zero_diag3
      Identity_diag3 rsub_diag3 radd_diag3 rscale_diag3 rdiv_diag3 rsym_diag3 rtr3_diag3
      rdev3_def rnorm3_def round64_values)

lemma shear_first:
  "J2_call_rounded round64 sqrt64 mat_hardening State_zero gradient_shear =
     (diag3 (7103754084555151 / 2 ^ 53) (- 7103754084555151 / 2 ^ 53) 0, State_shear)"
  unfolding gradient_shear_def State_shear_def
  by (simp add: J2_call_rounded_def Let_def mat_hardening_def State_zero_def zero_diag3
      Identity_diag3 rsub_diag3 radd_diag3 rscale_diag3 rdiv_diag3 rsym_diag3 rtr3_diag3
      rdev3_def rnorm3_def round64_values)

lemma shear_second:
  "J2_call_rounded round64 sqrt64 mat_hardening State_shear gradient_shear =
     (diag3 (3551877042277575 / 2 ^ 52) (- 3551877042277575 / 2 ^ 52) 0, State_shear_again)"
  unfolding gradient_shear_def State_shear_def State_shear_again_def
  by (simp add: J2_call_rounded_def Let_def mat_hardening_def State_zero_def zero_diag3
      Identity_diag3 rsub_diag3 radd_diag3 rscale_diag3 rdiv_diag3 rsym_diag3 rtr3_diag3
      rdev3_def rnorm3_def round64_values)

lemma uniaxial_traces:
  "tr (plastic_strain State_uniaxial) = 1 / 2 ^ 55"
  "tr (beta State_uniaxial) = 1 / 2 ^ 55"
  "rtr3 round64 (plastic_strain State_uniaxial) = 1 / 2 ^ 55"
  "rtr3 round64 (beta State_uniaxial) = 1 / 2 ^ 55"
  by (simp_all add: State_uniaxial_def tr_diag3 rtr3_diag3 round64_values)







section \<open>Stress-free reference and symmetry of the stress\<close>

text \<open>
  Claim C7. At the zero displacement gradient LinearIsotropic returns the zero stress
  in every dimension, and NeoHookean returns it in the two dimensions for which a
  determinant exists, for all values of the moduli.
\<close>

theorem zero_gradient_zero_stress:
  "LinearIsotropic_call m_li (0 :: 'a::finite tensor) = 0
   \<and> NeoHookean_call det2 m_nh 0 = 0
   \<and> NeoHookean_call det3 m_nh 0 = 0"
proof -
  have d2: "det2 Identity = 1" by (simp add: det2_def)
  have d3: "det3 Identity = 1" by (simp add: det3_def)
  have dz: "dot 0 0 = (0 :: 'b::finite tensor)"
    by (rule tensor_eqI) simp
  show ?thesis
    by (simp add: LinearIsotropic_call_def NeoHookean_call_def Let_def d2 d3 dz)
qed

subsection \<open>LinearIsotropic and J2 with explicit rounding\<close>

lemma LinearIsotropic_rounded_symmetric:
  "transpose_t (LinearIsotropic_call_rounded rnd ks m du_dX)
     = LinearIsotropic_call_rounded rnd ks m du_dX"
  by (rule tensor_eqI) (simp add: LinearIsotropic_call_rounded_def Let_def add.commute)

lemma LinearIsotropic_call_rounded_exact:
  "LinearIsotropic_call_rounded (\<lambda>x. x) [0, 1] m (du_b :: 2 tensor) = LinearIsotropic_call m du_b"
  "LinearIsotropic_call_rounded (\<lambda>x. x) [0, 1, 2] m (du_c :: 3 tensor) = LinearIsotropic_call m du_c"
  by (rule tensor_eqI,
      simp add: LinearIsotropic_call_rounded_def LinearIsotropic_call_def Let_def rtr_def tr_def
        sum2 sum3 add.commute algebra_simps)+

lemma J2_rounded_predictor_symmetric:
  assumes "transpose_t (beta state) = beta state"
    and "transpose_t (plastic_strain state) = plastic_strain state"
  shows "transpose_t (J2_s_rounded rnd mat state du_dX) = J2_s_rounded rnd mat state du_dX"
    and "transpose_t (J2_eta_rounded rnd mat state du_dX) = J2_eta_rounded rnd mat state du_dX"
    and "transpose_t (J2_normal_rounded rnd sq mat state du_dX)
          = J2_normal_rounded rnd sq mat state du_dX"
  using assms
  by (simp_all add: J2_normal_rounded_def J2_eta_rounded_def J2_s_rounded_def
      J2_el_strain_rounded_def transpose_t_rounded transpose_t_rdev3)

lemma J2_rounded_symmetric:
  assumes b: "transpose_t (beta state) = beta state"
    and e: "transpose_t (plastic_strain state) = plastic_strain state"
  shows "transpose_t (fst (J2_call_rounded rnd sq mat state du_dX))
          = fst (J2_call_rounded rnd sq mat state du_dX)"
    and "transpose_t (beta (snd (J2_call_rounded rnd sq mat state du_dX)))
          = beta (snd (J2_call_rounded rnd sq mat state du_dX))"
    and "transpose_t (plastic_strain (snd (J2_call_rounded rnd sq mat state du_dX)))
          = plastic_strain (snd (J2_call_rounded rnd sq mat state du_dX))"
proof -
  note sym = J2_rounded_predictor_symmetric [OF b e]
  show "transpose_t (fst (J2_call_rounded rnd sq mat state du_dX))
          = fst (J2_call_rounded rnd sq mat state du_dX)"
    by (cases "J2_phi_rounded rnd sq mat state du_dX > 0")
      (simp_all add: J2_call_rounded_plastic J2_call_rounded_elastic transpose_t_rounded sym)
  show "transpose_t (beta (snd (J2_call_rounded rnd sq mat state du_dX)))
          = beta (snd (J2_call_rounded rnd sq mat state du_dX))"
    by (cases "J2_phi_rounded rnd sq mat state du_dX > 0")
      (simp_all add: J2_call_rounded_plastic J2_call_rounded_elastic transpose_t_rounded sym b)
  show "transpose_t (plastic_strain (snd (J2_call_rounded rnd sq mat state du_dX)))
          = plastic_strain (snd (J2_call_rounded rnd sq mat state du_dX))"
    by (cases "J2_phi_rounded rnd sq mat state du_dX > 0")
      (simp_all add: J2_call_rounded_plastic J2_call_rounded_elastic transpose_t_rounded sym e)
qed

lemma J2_history_rounded_symmetric:
  assumes "transpose_t (beta state) = beta state"
    and "transpose_t (plastic_strain state) = plastic_strain state"
  shows "transpose_t (beta (J2_history_rounded rnd sq mat state dus))
      = beta (J2_history_rounded rnd sq mat state dus)
    \<and> transpose_t (plastic_strain (J2_history_rounded rnd sq mat state dus))
      = plastic_strain (J2_history_rounded rnd sq mat state dus)"
  using assms
proof (induction dus arbitrary: state)
  case Nil
  then show ?case by simp
next
  case (Cons du_dX rest)
  show ?case
    using Cons.IH [OF J2_rounded_symmetric(2) [OF Cons.prems]
        J2_rounded_symmetric(3) [OF Cons.prems]]
    by simp
qed

lemma shear_history:
  "J2_history_rounded round64 sqrt64 mat_hardening State_zero [gradient_shear] = State_shear"
  by (simp add: shear_first)

subsection \<open>NeoHookean in binary64 arithmetic\<close>

lemma entry_gradient_example [simp]:
  "entry gradient_example i j =
     (if i = 0 \<and> j = 1 then round64 (1 / 10)
      else if i = 1 \<and> (j = 0 \<or> j = 1) then round64 (1 / 5) else 0)"
  by (simp only: gradient_example_def tensor.sel)

lemma entry_gradient_symmetric [simp]:
  "entry gradient_symmetric i j = (if (i = 0 \<and> j = 1) \<or> (i = 1 \<and> j = 0) then 1 / 4 else 0)"
  by (simp only: gradient_symmetric_def tensor.sel)

lemma rdot_self_symmetric:
  "entry (rdot rnd ks A (transpose_t A)) i j = entry (rdot rnd ks A (transpose_t A)) j i"
  by (simp add: mult.commute)

lemma NeoHookean_B_minus_I_entry:
  "entry (NeoHookean_B_minus_I rnd ks du_dX) i j =
     rnd (rnd (entry (rdot rnd ks du_dX (transpose_t du_dX)) i j + entry du_dX j i)
            + entry du_dX i j)"
  by (simp add: NeoHookean_B_minus_I_def)

lemma NeoHookean_B_minus_I_transposed:
  "entry (NeoHookean_B_minus_I rnd ks du_dX) j i =
     rnd (rnd (entry (rdot rnd ks du_dX (transpose_t du_dX)) i j + entry du_dX i j)
            + entry du_dX j i)"
  unfolding NeoHookean_B_minus_I_entry [of rnd ks du_dX j i]
    rdot_self_symmetric [of rnd ks du_dX j i] ..

lemma NeoHookean_rounded_symmetric:
  assumes "transpose_t du_dX = du_dX"
  shows "transpose_t (NeoHookean_call_rounded rnd lg det ks m du_dX)
    = NeoHookean_call_rounded rnd lg det ks m du_dX"
proof (rule tensor_eqI)
  fix i j
  have e: "entry du_dX j i = entry du_dX i j"
    using assms by (metis entry_transpose_t)
  have b: "entry (NeoHookean_B_minus_I rnd ks du_dX) j i
      = entry (NeoHookean_B_minus_I rnd ks du_dX) i j"
    unfolding NeoHookean_B_minus_I_transposed [of rnd ks du_dX j i]
      NeoHookean_B_minus_I_entry [of rnd ks du_dX i j] e ..
  show "entry (transpose_t (NeoHookean_call_rounded rnd lg det ks m du_dX)) i j
      = entry (NeoHookean_call_rounded rnd lg det ks m du_dX) i j"
    by (simp add: NeoHookean_call_rounded_def Let_def b)
qed

lemma NeoHookean_call_rounded_exact:
  "NeoHookean_call_rounded (\<lambda>x. x) ln (rdet2 (\<lambda>x. x)) [0, 1] m du_b = NeoHookean_call det2 m du_b"
  "NeoHookean_call_rounded (\<lambda>x. x) ln (rdet3 (\<lambda>x. x)) [0, 1, 2] m du_c = NeoHookean_call det3 m du_c"
proof -
  have r2: "rdet2 (\<lambda>x. x) = det2" and r3: "rdet3 (\<lambda>x. x) = det3"
    by (simp_all add: rdet2_exact rdet3_exact fun_eq_iff)
  have a: "radd (\<lambda>x. x) A B = A + B" for A B :: "'a tensor"
    by (rule tensor_eqI) simp
  show "NeoHookean_call_rounded (\<lambda>x. x) ln (rdet2 (\<lambda>x. x)) [0, 1] m du_b
      = NeoHookean_call det2 m du_b"
    unfolding r2
    by (rule tensor_eqI)
      (simp add: NeoHookean_call_rounded_def NeoHookean_call_def NeoHookean_B_minus_I_def Let_def
        sum2 a)
  show "NeoHookean_call_rounded (\<lambda>x. x) ln (rdet3 (\<lambda>x. x)) [0, 1, 2] m du_c
      = NeoHookean_call det3 m du_c"
    unfolding r3
    by (rule tensor_eqI)
      (simp add: NeoHookean_call_rounded_def NeoHookean_call_def NeoHookean_B_minus_I_def Let_def
        sum3 a)
qed

lemma gradient_example_entries:
  "entry gradient_example i j =
     (if i = 0 \<and> j = 1 then 3602879701896397 / 36028797018963968
      else if i = 1 \<and> (j = 0 \<or> j = 1) then 3602879701896397 / 18014398509481984 else 0)"
  by (simp add: round64_values)

lemma gradient_example_det:
  "rdet3 round64 (radd round64 Identity gradient_example) = 5314247560297185 / 4503599627370496"
  by (simp add: rdet3_def Let_def gradient_example_entries round64_values
      del: entry_gradient_example)

lemma gradient_symmetric_det:
  "rdet2 round64 (radd round64 Identity gradient_symmetric) = 15 / 16"
  "rdet3 round64 (radd round64 Identity gradient_symmetric) = 15 / 16"
  by (simp_all add: rdet2_def rdet3_def Let_def round64_values)




section \<open>Boundary conditions in CompleteSetup\<close>

lemma traction_loop_vectors:
  "\<forall>bc\<in>set bcs. \<exists>c. coef bc = VectorCoefficient c \<Longrightarrow> \<exists>r. traction_loop bcs bfi = Inr r"
  by (induction bcs arbitrary: bfi) auto

lemma transform_tdofs_eq:
  "transform_tdofs env bc tds =
     (map (\<lambda>t. ComponentMismatchWarning) (filter (tdof_mismatch env bc) tds), map (VDofToDof env) tds)"
  by (induction tds) (simp_all add: tdof_mismatch_def Let_def)

lemma essential_loop_ok:
  assumes "\<forall>bc\<in>set bcs. (component bc = - 1 \<longrightarrow> (\<exists>c. coef bc = VectorCoefficient c))
      \<and> (component bc \<noteq> - 1 \<longrightarrow> (\<exists>c. coef bc = Coefficient c))"
  shows "\<exists>gf'. essential_loop env bcs (lg, gf, ess) =
      Inr (lg @ concat (map (\<lambda>bc. map (\<lambda>t. ComponentMismatchWarning)
                                 (filter (tdof_mismatch env bc) (true_dofs bc))) bcs),
           gf', ess @ concat (map true_dofs bcs))"
  using assms
proof (induction bcs arbitrary: lg gf ess)
  case Nil
  then show ?case by simp
next
  case (Cons bc bcs)
  show ?case
  proof (cases "component bc = - 1")
    case True
    with Cons.prems obtain c where c: "coef bc = VectorCoefficient c" by auto
    from Cons.prems have rest: "\<forall>bc\<in>set bcs. (component bc = - 1 \<longrightarrow> (\<exists>c. coef bc = VectorCoefficient c))
      \<and> (component bc \<noteq> - 1 \<longrightarrow> (\<exists>c. coef bc = Coefficient c))" by simp
    from Cons.IH [OF rest,
        of "lg @ map (\<lambda>t. ComponentMismatchWarning) (filter (tdof_mismatch env bc) (true_dofs bc))"
          "ProjectCoefficient_vector env c (map (VDofToDof env) (true_dofs bc)) gf"
          "ess @ true_dofs bc"]
    obtain gf' where "essential_loop env bcs
        (lg @ map (\<lambda>t. ComponentMismatchWarning) (filter (tdof_mismatch env bc) (true_dofs bc)),
         ProjectCoefficient_vector env c (map (VDofToDof env) (true_dofs bc)) gf,
         ess @ true_dofs bc) =
      Inr ((lg @ map (\<lambda>t. ComponentMismatchWarning) (filter (tdof_mismatch env bc) (true_dofs bc)))
             @ concat (map (\<lambda>bc. map (\<lambda>t. ComponentMismatchWarning)
                                 (filter (tdof_mismatch env bc) (true_dofs bc))) bcs),
           gf', (ess @ true_dofs bc) @ concat (map true_dofs bcs))"
      by blast
    then show ?thesis
      by (simp add: True c transform_tdofs_eq)
  next
    case False
    with Cons.prems obtain c where c: "coef bc = Coefficient c" by auto
    from Cons.prems have rest: "\<forall>bc\<in>set bcs. (component bc = - 1 \<longrightarrow> (\<exists>c. coef bc = VectorCoefficient c))
      \<and> (component bc \<noteq> - 1 \<longrightarrow> (\<exists>c. coef bc = Coefficient c))" by simp
    from Cons.IH [OF rest,
        of "lg @ map (\<lambda>t. ComponentMismatchWarning) (filter (tdof_mismatch env bc) (true_dofs bc))"
          "ProjectCoefficient_scalar env c (map (VDofToDof env) (true_dofs bc)) (component bc) gf"
          "ess @ true_dofs bc"]
    obtain gf' where "essential_loop env bcs
        (lg @ map (\<lambda>t. ComponentMismatchWarning) (filter (tdof_mismatch env bc) (true_dofs bc)),
         ProjectCoefficient_scalar env c (map (VDofToDof env) (true_dofs bc)) (component bc) gf,
         ess @ true_dofs bc) =
      Inr ((lg @ map (\<lambda>t. ComponentMismatchWarning) (filter (tdof_mismatch env bc) (true_dofs bc)))
             @ concat (map (\<lambda>bc. map (\<lambda>t. ComponentMismatchWarning)
                                 (filter (tdof_mismatch env bc) (true_dofs bc))) bcs),
           gf', (ess @ true_dofs bc) @ concat (map true_dofs bcs))"
      by blast
    then show ?thesis
      by (simp add: False c transform_tdofs_eq)
  qed
qed

lemma count_list_append: "count_list (xs @ ys) a = count_list xs a + count_list ys a"
  by (induction xs) simp_all

lemma count_list_mismatch:
  "count_list (concat (map (\<lambda>bc. map (\<lambda>t. ComponentMismatchWarning) (filter (P bc) (f bc))) bcs))
      ComponentMismatchWarning
   = (\<Sum>bc\<leftarrow>bcs. length (filter (P bc) (f bc)))"
proof (induction bcs)
  case Nil
  then show ?case by simp
next
  case (Cons bc bcs)
  have "count_list (map (\<lambda>t. ComponentMismatchWarning) xs) ComponentMismatchWarning = length xs"
    for xs :: "'c list"
    by (induction xs) simp_all
  with Cons show ?case by (simp add: count_list_append)
qed

text \<open>
  Claim C8. Let every traction condition carry a vector coefficient and every
  displacement condition the coefficient kind that its component asks for (vector for
  \<open>-1\<close>, scalar otherwise), so that no coefficient error stops the setup. Then
  \<^verbatim>\<open>CompleteSetup\<close> finishes without a fatal error whatever the true dofs are,
  the essential dof list is the sorted list of all true dofs without repetition, and
  every true dof of a single-component condition that differs from the vector dof of
  its scalar dof and the requested component puts one warning into the log and is in
  the essential dof list as given.
\<close>

theorem CompleteSetup_component_mismatch:
  assumes nat: "\<forall>bc\<in>set (m_nat_bdr st). \<exists>c. coef bc = VectorCoefficient c"
    and ess: "\<forall>bc\<in>set (m_ess_bdr st).
        (component bc = - 1 \<longrightarrow> (\<exists>c. coef bc = VectorCoefficient c))
      \<and> (component bc \<noteq> - 1 \<longrightarrow> (\<exists>c. coef bc = Coefficient c))"
  shows "\<exists>st'. CompleteSetup env st = Inr st'
    \<and> essential_tdofs st' = remdups_adj (sort (concat (map true_dofs (m_ess_bdr st))))
    \<and> (\<forall>bc\<in>set (m_ess_bdr st). \<forall>tdof\<in>set (true_dofs bc).
          component bc \<noteq> - 1 \<and> tdof \<noteq> DofToVDof env (VDofToDof env tdof) (component bc) \<longrightarrow>
            ComponentMismatchWarning \<in> set (slic_log st') \<and> tdof \<in> set (essential_tdofs st'))
    \<and> count_list (slic_log st') ComponentMismatchWarning =
        count_list (slic_log st) ComponentMismatchWarning
          + (\<Sum>bc\<leftarrow>m_ess_bdr st. length (filter (tdof_mismatch env bc) (true_dofs bc)))"
proof -
  let ?ws = "concat (map (\<lambda>bc. map (\<lambda>t. ComponentMismatchWarning)
                 (filter (tdof_mismatch env bc) (true_dofs bc))) (m_ess_bdr st))"
  let ?dofs = "concat (map true_dofs (m_ess_bdr st))"
  from traction_loop_vectors [OF nat] obtain bfi where t: "traction_loop (m_nat_bdr st) [] = Inr bfi"
    by blast
  from essential_loop_ok [OF ess] obtain gf' where
    e: "essential_loop env (m_ess_bdr st) (slic_log st, m_displacement_gf st, []) =
          Inr (slic_log st @ ?ws, gf', [] @ ?dofs)"
    by blast
  define lg where "lg = (if m_lin_params_prec st = BoomerAMG
      then (slic_log st @ ?ws) @ [BoomerAMGOrderingWarning] else slic_log st @ ?ws)"
  define st' where "st' = st\<lparr>traction_integrators := bfi, m_displacement_gf := gf',
      essential_tdofs := remdups_adj (sort ?dofs), slic_log := lg\<rparr>"
  have call: "CompleteSetup env st = Inr st'"
    by (simp add: CompleteSetup_def t e st'_def lg_def Let_def)
  have dofs: "essential_tdofs st' = remdups_adj (sort ?dofs)"
    by (simp add: st'_def)
  have log: "set ?ws \<subseteq> set (slic_log st')"
    by (auto simp add: st'_def lg_def)
  have warn: "ComponentMismatchWarning \<in> set (slic_log st') \<and> tdof \<in> set (essential_tdofs st')"
    if "bc \<in> set (m_ess_bdr st)" "tdof \<in> set (true_dofs bc)" "tdof_mismatch env bc tdof"
    for bc tdof
  proof -
    from that have "ComponentMismatchWarning \<in> set ?ws" by force
    with log have "ComponentMismatchWarning \<in> set (slic_log st')" by blast
    moreover from that have "tdof \<in> set (essential_tdofs st')"
      by (auto simp add: dofs)
    ultimately show ?thesis by simp
  qed
  have cnt: "count_list (slic_log st') ComponentMismatchWarning =
        count_list (slic_log st) ComponentMismatchWarning
          + (\<Sum>bc\<leftarrow>m_ess_bdr st. length (filter (tdof_mismatch env bc) (true_dofs bc)))"
    by (simp add: st'_def lg_def count_list_append count_list_mismatch)
  from call dofs warn cnt show ?thesis
    unfolding tdof_mismatch_def by blast
qed

text \<open>
  In the example the condition on component 0 lists the true dofs 0, 4 and 3; dof 4
  is component 1 of node 1 and does not match.
\<close>

theorem CompleteSetup_component_mismatch_witness:
  "\<exists>st'. CompleteSetup services_example solver_example = Inr st'
     \<and> essential_tdofs st' = [0, 3, 4]
     \<and> ComponentMismatchWarning \<in> set (slic_log st')
     \<and> count_list (slic_log st') ComponentMismatchWarning = 1"
proof -
  have nat: "\<forall>bc\<in>set (m_nat_bdr solver_example). \<exists>c. coef bc = VectorCoefficient c"
    by (simp add: solver_example_def)
  have ess: "\<forall>bc\<in>set (m_ess_bdr solver_example).
        (component bc = - 1 \<longrightarrow> (\<exists>c. coef bc = VectorCoefficient c))
      \<and> (component bc \<noteq> - 1 \<longrightarrow> (\<exists>c. coef bc = Coefficient c))"
    by (simp add: solver_example_def)
  have dofs: "remdups_adj (sort (concat (map true_dofs (m_ess_bdr solver_example)))) = [0, 3, 4]"
    by (simp add: solver_example_def)
  have mis: "(\<Sum>bc\<leftarrow>m_ess_bdr solver_example.
      length (filter (tdof_mismatch services_example bc) (true_dofs bc))) = 1"
    by (simp add: solver_example_def services_example_def tdof_mismatch_def)
  have four: "(4::int) \<noteq> DofToVDof services_example (VDofToDof services_example 4) 0"
    by (simp add: services_example_def)
  have lg: "count_list (slic_log solver_example) ComponentMismatchWarning = 0"
    by (simp add: solver_example_def)
  have bc: "\<lparr>markers = [1], coef = Coefficient 0, component = 0, true_dofs = [0, 4, 3]\<rparr>
      \<in> set (m_ess_bdr solver_example)"
    by (simp add: solver_example_def)
  from CompleteSetup_component_mismatch [OF nat ess, of services_example] obtain st' where
    r: "CompleteSetup services_example solver_example = Inr st'"
      "essential_tdofs st' = remdups_adj (sort (concat (map true_dofs (m_ess_bdr solver_example))))"
      "\<forall>bc\<in>set (m_ess_bdr solver_example). \<forall>tdof\<in>set (true_dofs bc).
          component bc \<noteq> - 1
            \<and> tdof \<noteq> DofToVDof services_example (VDofToDof services_example tdof) (component bc) \<longrightarrow>
            ComponentMismatchWarning \<in> set (slic_log st') \<and> tdof \<in> set (essential_tdofs st')"
      "count_list (slic_log st') ComponentMismatchWarning =
        count_list (slic_log solver_example) ComponentMismatchWarning
          + (\<Sum>bc\<leftarrow>m_ess_bdr solver_example.
               length (filter (tdof_mismatch services_example bc) (true_dofs bc)))"
    by blast
  from r(3) bc four have "ComponentMismatchWarning \<in> set (slic_log st')"
    by fastforce
  with r(1) r(2) r(4) dofs mis lg show ?thesis by simp
qed

section \<open>The time step\<close>

text \<open>
  Claim C4, amended. In the quasi-static regime neither \<^verbatim>\<open>AdvanceTimestep\<close> nor
  the thermal \<^verbatim>\<open>advanceTimestep\<close> has a failed-step result: the convergence
  flag of the Newton solve is not read, and the step ends in the same state and with
  the same \<^verbatim>\<open>dt\<close> whatever the flag is. The displacement is what the Newton
  solver left, the mesh is moved to the deformed nodes and the 32-bit cycle counter is
  incremented. In the dynamic regime the Newton iteration runs inside the time
  integrator of the library, about which nothing is stated.
\<close>

theorem AdvanceTimestep_ignores_convergence:
  "(m_timestepper st = QuasiStatic \<longrightarrow>
      AdvanceTimestep
          (env\<lparr>newton_Mult := (\<lambda>s b x. (fst (newton_Mult env s b x), flag s b x))\<rparr>) st dt
        = AdvanceTimestep env st dt
      \<and> snd (AdvanceTimestep env st dt) = dt
      \<and> m_displacement_true_vec (fst (AdvanceTimestep env st dt)) =
          fst (newton_Mult env
                 (st\<lparr>m_velocity_true_vec := GetTrueDofs env (m_velocity_gf st),
                     m_displacement_true_vec := GetTrueDofs env (m_displacement_gf st),
                     mesh_Nodes := ReferenceNodes\<rparr>)
                 [] (GetTrueDofs env (m_displacement_gf st)))
      \<and> mesh_Nodes (fst (AdvanceTimestep env st dt)) = DeformedNodes
      \<and> m_cycle (fst (AdvanceTimestep env st dt)) = m_cycle st + 1)
   \<and> (th_is_quasistatic this \<longrightarrow>
      advanceTimestep
          (tenv\<lparr>nonlin_solver_Mult := (\<lambda>s b. (fst (nonlin_solver_Mult tenv s b), tflag s b))\<rparr>)
          this dt
        = advanceTimestep tenv this dt
      \<and> (\<exists>this'. advanceTimestep tenv this dt = Inr (this', dt)))"
proof (intro conjI impI)
  assume q: "m_timestepper st = QuasiStatic"
  show "AdvanceTimestep
          (env\<lparr>newton_Mult := (\<lambda>s b x. (fst (newton_Mult env s b x), flag s b x))\<rparr>) st dt
        = AdvanceTimestep env st dt"
    using q by (simp add: AdvanceTimestep_def QuasiStaticSolve_def Let_def)
  show "snd (AdvanceTimestep env st dt) = dt"
    using q by (simp add: AdvanceTimestep_def QuasiStaticSolve_def Let_def)
  show "m_displacement_true_vec (fst (AdvanceTimestep env st dt)) =
          fst (newton_Mult env
                 (st\<lparr>m_velocity_true_vec := GetTrueDofs env (m_velocity_gf st),
                     m_displacement_true_vec := GetTrueDofs env (m_displacement_gf st),
                     mesh_Nodes := ReferenceNodes\<rparr>)
                 [] (GetTrueDofs env (m_displacement_gf st)))"
    using q by (simp add: AdvanceTimestep_def QuasiStaticSolve_def Let_def)
  show "mesh_Nodes (fst (AdvanceTimestep env st dt)) = DeformedNodes"
    using q by (simp add: AdvanceTimestep_def QuasiStaticSolve_def Let_def)
  show "m_cycle (fst (AdvanceTimestep env st dt)) = m_cycle st + 1"
    using q by (simp add: AdvanceTimestep_def QuasiStaticSolve_def Let_def)
next
  assume q: "th_is_quasistatic this"
  show "advanceTimestep
          (tenv\<lparr>nonlin_solver_Mult := (\<lambda>s b. (fst (nonlin_solver_Mult tenv s b), tflag s b))\<rparr>)
          this dt
        = advanceTimestep tenv this dt"
    using q by (simp add: advanceTimestep_def Let_def)
  show "\<exists>this'. advanceTimestep tenv this dt = Inr (this', dt)"
    using q by (simp add: advanceTimestep_def Let_def)
qed

text \<open>
  The quasi-static solid solver and the quasi-static thermal module of the examples,
  with services that report no convergence.
\<close>

theorem AdvanceTimestep_ignores_convergence_witness:
  "m_timestepper solver_example = QuasiStatic
   \<and> AdvanceTimestep services_diverged solver_example 1 = AdvanceTimestep services_example solver_example 1
   \<and> m_displacement_true_vec (fst (AdvanceTimestep services_example solver_example 1)) = [1, 1, 1, 1, 1, 1]
   \<and> th_is_quasistatic thermal_quasistatic
   \<and> advanceTimestep thermal_services_diverged thermal_quasistatic 1
       = advanceTimestep thermal_services_example thermal_quasistatic 1"
proof -
  have q: "m_timestepper solver_example = QuasiStatic"
    by (simp add: solver_example_def)
  have t: "th_is_quasistatic thermal_quasistatic"
    by (simp add: thermal_quasistatic_def ThermalConductionFunctional_ctor_def)
  have e: "services_example\<lparr>newton_Mult :=
      (\<lambda>s b x. (fst (newton_Mult services_example s b x), False))\<rparr> = services_diverged"
    by (simp add: services_diverged_def services_example_def)
  have te: "thermal_services_example\<lparr>nonlin_solver_Mult :=
      (\<lambda>s b. (fst (nonlin_solver_Mult thermal_services_example s b), False))\<rparr>
      = thermal_services_diverged"
    by (simp add: thermal_services_diverged_def thermal_services_example_def)
  have n: "fst (newton_Mult services_example
                 (solver_example\<lparr>m_velocity_true_vec := GetTrueDofs services_example (m_velocity_gf solver_example),
                     m_displacement_true_vec := GetTrueDofs services_example (m_displacement_gf solver_example),
                     mesh_Nodes := ReferenceNodes\<rparr>)
                 [] (GetTrueDofs services_example (m_displacement_gf solver_example))) = [1, 1, 1, 1, 1, 1]"
    by (simp add: services_example_def solver_example_def)
  from AdvanceTimestep_ignores_convergence [of solver_example services_example "\<lambda>s b x. False" 1
      thermal_quasistatic thermal_services_example "\<lambda>s b. False"] q t
  show ?thesis
    by (simp only: e te n)
qed

text \<open>
  Claim C4 as stated fails: with a Newton solver that reports no convergence the
  quasi-static step of the example ends exactly as with one that reports convergence,
  cycle counter incremented and mesh on the deformed nodes.
\<close>

theorem AdvanceTimestep_accepts_diverged:
  "m_timestepper solver_example = QuasiStatic
   \<and> snd (newton_Mult services_diverged solver_example [] [0, 0, 0, 0, 0, 0]) = False
   \<and> AdvanceTimestep services_diverged solver_example 1 = AdvanceTimestep services_example solver_example 1
   \<and> m_cycle (fst (AdvanceTimestep services_diverged solver_example 1)) = m_cycle solver_example + 1
   \<and> mesh_Nodes (fst (AdvanceTimestep services_diverged solver_example 1)) = DeformedNodes
   \<and> m_deformed_nodes (fst (AdvanceTimestep services_diverged solver_example 1)) = [1, 1, 1, 2, 1, 1]"
  by (simp add: AdvanceTimestep_def QuasiStaticSolve_def services_diverged_def services_example_def
      solver_example_def Vector_Set_def Vector_Add_def Let_def)

lemma map2_add_commute: "map2 (+) d r = map2 (+) r (d :: real list)"
proof (induction d arbitrary: r)
  case Nil
  then show ?case by simp
next
  case (Cons x d)
  then show ?case by (cases r) (simp_all add: add.commute)
qed

lemma Vector_Set_Add: "Vector_Add (Vector_Set 1 d) 1 r = map2 (+) r d"
proof -
  have "Vector_Add (Vector_Set 1 d) 1 r = map2 (+) d r"
    by (simp add: Vector_Add_def Vector_Set_def)
  then show ?thesis by (simp only: map2_add_commute)
qed

text \<open>
  Claim C5, amended. After \<^verbatim>\<open>AdvanceTimestep\<close> the mesh uses the deformed
  nodes and the displacement grid function is the one distributed from the new
  true-dof vector. In a quasi-static step that vector is the Newton solution started
  from the previous displacement on the reference mesh, and the deformed nodes are the
  reference nodes plus the new displacement, entry by entry. In a dynamic step the
  deformed nodes are set to the new displacement field itself: the reference nodes are
  not added and the previous deformed nodes do not enter.
\<close>

theorem AdvanceTimestep_deformed_nodes:
  "mesh_Nodes (fst (AdvanceTimestep env st dt)) = DeformedNodes
   \<and> m_reference_nodes (fst (AdvanceTimestep env st dt)) = m_reference_nodes st
   \<and> m_displacement_gf (fst (AdvanceTimestep env st dt)) =
       SetFromTrueDofs env (m_displacement_true_vec (fst (AdvanceTimestep env st dt)))
   \<and> (m_timestepper st = QuasiStatic \<longrightarrow>
        m_displacement_true_vec (fst (AdvanceTimestep env st dt)) =
          fst (newton_Mult env
                 (st\<lparr>m_velocity_true_vec := GetTrueDofs env (m_velocity_gf st),
                     m_displacement_true_vec := GetTrueDofs env (m_displacement_gf st),
                     mesh_Nodes := ReferenceNodes\<rparr>)
                 [] (GetTrueDofs env (m_displacement_gf st)))
        \<and> m_deformed_nodes (fst (AdvanceTimestep env st dt)) =
            map2 (+) (m_reference_nodes st) (m_displacement_gf (fst (AdvanceTimestep env st dt))))
   \<and> (m_timestepper st \<noteq> QuasiStatic \<longrightarrow>
        m_deformed_nodes (fst (AdvanceTimestep env st dt)) =
          m_displacement_gf (fst (AdvanceTimestep env st dt)))"
proof (cases "m_timestepper st = QuasiStatic")
  case True
  then show ?thesis
    by (simp add: AdvanceTimestep_def QuasiStaticSolve_def Let_def Vector_Set_Add)
next
  case False
  then show ?thesis
    by (simp add: AdvanceTimestep_def Let_def Vector_Set_def case_prod_beta)
qed

theorem AdvanceTimestep_deformed_nodes_witness:
  "m_timestepper solver_example = QuasiStatic
   \<and> m_displacement_gf (fst (AdvanceTimestep services_example solver_example 1)) = [1, 1, 1, 1, 1, 1]
   \<and> m_deformed_nodes (fst (AdvanceTimestep services_example solver_example 1)) = [1, 1, 1, 2, 1, 1]
   \<and> m_timestepper solver_dynamic \<noteq> QuasiStatic
   \<and> m_deformed_nodes (fst (AdvanceTimestep services_example solver_dynamic 1))
       = m_displacement_gf (fst (AdvanceTimestep services_example solver_dynamic 1))"
proof -
  have q: "m_timestepper solver_example = QuasiStatic"
    and d: "m_timestepper solver_dynamic \<noteq> QuasiStatic"
    and r: "m_reference_nodes solver_example = [0, 0, 0, 1, 0, 0]"
    by (simp_all add: solver_example_def solver_dynamic_def)
  have g: "m_displacement_gf (fst (AdvanceTimestep services_example solver_example 1)) = [1, 1, 1, 1, 1, 1]"
    by (simp add: AdvanceTimestep_def QuasiStaticSolve_def services_example_def
      solver_example_def Vector_Set_def Vector_Add_def Let_def)
  from AdvanceTimestep_deformed_nodes [of services_example solver_example 1] q
  have "m_deformed_nodes (fst (AdvanceTimestep services_example solver_example 1)) =
      map2 (+) (m_reference_nodes solver_example)
        (m_displacement_gf (fst (AdvanceTimestep services_example solver_example 1)))"
    by blast
  then have "m_deformed_nodes (fst (AdvanceTimestep services_example solver_example 1)) = [1, 1, 1, 2, 1, 1]"
    by (simp add: g r)
  moreover from AdvanceTimestep_deformed_nodes [of services_example solver_dynamic 1] d
  have "m_deformed_nodes (fst (AdvanceTimestep services_example solver_dynamic 1))
       = m_displacement_gf (fst (AdvanceTimestep services_example solver_dynamic 1))"
    by blast
  ultimately show ?thesis using q d g by simp
qed

text \<open>
  Claim C5 as stated fails in the dynamic regime: nothing is accumulated in the
  deformed nodes. Started from deformed nodes that are all 5 and from deformed nodes
  that are all 7, the same dynamic step leaves the same deformed nodes, the integrated
  displacement field.
\<close>

theorem AdvanceTimestep_dynamic_overwrites:
  "m_timestepper solver_dynamic \<noteq> QuasiStatic
   \<and> m_deformed_nodes (fst (AdvanceTimestep services_example
        (solver_dynamic\<lparr>m_deformed_nodes := [5, 5, 5, 5, 5, 5]\<rparr>) 1)) = [0, 0, 0, 2, 0, 0]
   \<and> m_deformed_nodes (fst (AdvanceTimestep services_example
        (solver_dynamic\<lparr>m_deformed_nodes := [7, 7, 7, 7, 7, 7]\<rparr>) 1)) = [0, 0, 0, 2, 0, 0]"
  by (simp add: AdvanceTimestep_def services_example_def solver_dynamic_def
      solver_example_def Vector_Set_def Let_def)

section \<open>The Jacobian of the dynamic thermal operator\<close>

lemma dynamic_jacobian_keeps_dt:
  "th_dt (snd (dynamic_jacobian env this du_dt)) = th_dt this"
  "th_previous_dt (snd (dynamic_jacobian env this du_dt)) = th_previous_dt this"
  by (simp_all add: dynamic_jacobian_def Let_def)

lemma dynamic_jacobian_log:
  "length (assembly_log (snd (dynamic_jacobian env this du_dt))) =
     length (assembly_log this) + (if th_dt this = th_previous_dt this then 0 else 2)"
  by (simp add: dynamic_jacobian_def Let_def)

lemma jacobian_requests_log:
  "length (assembly_log (jacobian_requests env this iterates)) =
     length (assembly_log this)
       + (if th_dt this = th_previous_dt this then 0 else 2 * length iterates)"
proof (induction iterates arbitrary: this)
  case Nil
  then show ?case by simp
next
  case (Cons du_dt rest)
  show ?case
    by (simp add: Cons.IH dynamic_jacobian_keeps_dt dynamic_jacobian_log)
qed

lemma jacobian_requests_same:
  "th_dt this = th_previous_dt this \<Longrightarrow> jacobian_requests env this iterates = this"
proof (induction iterates arbitrary: this)
  case Nil
  then show ?case by simp
next
  case (Cons du_dt rest)
  from Cons.prems have "snd (dynamic_jacobian env this du_dt) = this"
    by (simp add: dynamic_jacobian_def)
  with Cons show ?case by simp
qed

text \<open>
  Claim C3, amended. A Jacobian request assembles the mass and the stiffness matrix
  once each exactly when \<^verbatim>\<open>dt_\<close> differs from \<^verbatim>\<open>previous_dt_\<close>, and changes
  nothing otherwise. The request writes neither of the two members:
  \<^verbatim>\<open>previous_dt_\<close> is the value stored by the time integrator, \<open>-1\<close> after
  construction, not the step size of the previous request. So a run of requests made
  while the two are equal leaves the module as it is, and in a run made while they
  differ every request assembles again.
\<close>

theorem dynamic_jacobian_reassembly:
  "th_dt (snd (dynamic_jacobian env this du_dt)) = th_dt this
   \<and> th_previous_dt (snd (dynamic_jacobian env this du_dt)) = th_previous_dt this
   \<and> (th_dt this = th_previous_dt this \<longrightarrow>
        snd (dynamic_jacobian env this du_dt) = this
        \<and> jacobian_requests env this iterates = this)
   \<and> (th_dt this \<noteq> th_previous_dt this \<longrightarrow>
        assembly_log (snd (dynamic_jacobian env this du_dt)) =
          assembly_log this
            @ [AssembleMass (th_u this),
               AssembleStiffness (add_vectors 1 (th_u this) (th_dt this) du_dt)]
        \<and> th_J (snd (dynamic_jacobian env this du_dt)) =
            Some (Matrix_Add 1 (M_gradient env (th_u this)) (th_dt this)
                    (K_gradient env (add_vectors 1 (th_u this) (th_dt this) du_dt)))
        \<and> length (assembly_log (jacobian_requests env this iterates)) =
            length (assembly_log this) + 2 * length iterates)"
proof (cases "th_dt this = th_previous_dt this")
  case True
  then show ?thesis
    by (simp add: dynamic_jacobian_keeps_dt jacobian_requests_same) (simp add: dynamic_jacobian_def)
next
  case False
  then show ?thesis
    by (simp add: dynamic_jacobian_keeps_dt jacobian_requests_log)
      (simp add: dynamic_jacobian_def Let_def)
qed

lemma thermal_example_fields:
  "th_dt thermal_example = 0" "th_previous_dt thermal_example = - 1"
  "assembly_log thermal_example = []" "th_u thermal_example = [1]"
  by (simp_all add: thermal_example_def ThermalConductionFunctional_ctor_def)

lemma thermal_first_step_fields:
  "th_dt thermal_first_step = 1 / 10" "th_previous_dt thermal_first_step = - 1"
  "assembly_log thermal_first_step = []" "th_u thermal_first_step = [1]"
  by (simp_all add: thermal_first_step_def thermal_example_fields)

theorem dynamic_jacobian_reassembly_witness:
  "th_dt thermal_first_step \<noteq> th_previous_dt thermal_first_step
   \<and> assembly_log (snd (dynamic_jacobian thermal_services_example thermal_first_step [0])) =
       [AssembleMass [1], AssembleStiffness [1]]
   \<and> length (assembly_log (jacobian_requests thermal_services_example thermal_first_step [[0], [1], [2]])) = 6
   \<and> th_dt (thermal_first_step\<lparr>th_previous_dt := 1 / 10\<rparr>)
       = th_previous_dt (thermal_first_step\<lparr>th_previous_dt := 1 / 10\<rparr>)
   \<and> jacobian_requests thermal_services_example
          (thermal_first_step\<lparr>th_previous_dt := 1 / 10\<rparr>) [[0], [1], [2]]
       = thermal_first_step\<lparr>th_previous_dt := 1 / 10\<rparr>"
  using dynamic_jacobian_reassembly [of thermal_services_example thermal_first_step "[0]" "[[0], [1], [2]]"]
    dynamic_jacobian_reassembly [of thermal_services_example
      "thermal_first_step\<lparr>th_previous_dt := 1 / 10\<rparr>" "[0]" "[[0], [1], [2]]"]
  by (simp add: thermal_first_step_fields add_vectors_def del: jacobian_requests.simps)

text \<open>
  Claim C3 as stated fails: in the first step of the example two Jacobian requests
  follow each other at the unchanged step size \<open>1/10\<close>, and the second one
  assembles mass and stiffness again.
\<close>

theorem dynamic_jacobian_reassembles_again:
  "th_dt (snd (dynamic_jacobian thermal_services_example thermal_first_step [0]))
       = th_dt thermal_first_step
   \<and> assembly_log (snd (dynamic_jacobian thermal_services_example thermal_first_step [0]))
       = [AssembleMass [1], AssembleStiffness [1]]
   \<and> assembly_log (snd (dynamic_jacobian thermal_services_example
         (snd (dynamic_jacobian thermal_services_example thermal_first_step [0])) [0]))
       = [AssembleMass [1], AssembleStiffness [1], AssembleMass [1], AssembleStiffness [1]]"
  by (simp add: dynamic_jacobian_def Let_def thermal_first_step_fields add_vectors_def)

end
